theory Spec2Isabelle
  imports Complex_Main
begin

section \<open>The AST visitor of the Carnot planner (ast\_visitor.cc)\<close>

text \<open>
  A shallow embedding of \<^verbatim>\<open>ASTVisitorImpl\<close>: the evaluator that walks a parsed
  script and builds IR nodes in a graph. A \<^verbatim>\<open>StatusOr<T>\<close> is a sum
  \<open>error + T\<close>; the members the C++ mutates (the IR graph, the variable tables, the
  module handler) are an explicit state that every function takes and returns.
\<close>

subsection \<open>Statuses\<close>

text \<open>
  \<open>AstError\<close> is \<^verbatim>\<open>CreateAstError\<close>, \<open>Unimplemented\<close> and \<open>InvalidArgument\<close> are the
  \<^verbatim>\<open>error::\<close> statuses, \<open>ObjectError\<close> is an error status made by the object model
  or the IR graph. The last three are no statuses: \<open>CheckFailed\<close> is a failed
  \<^verbatim>\<open>DCHECK\<close> (the process aborts), \<open>Undefined\<close> is a step with no defined
  behaviour in C++ (reading through a past-the-end iterator, indexing an empty vector),
  \<open>OutOfFuel\<close> is the evaluation bound of the embedding.
\<close>

datatype error =
    AstError string
  | Unimplemented string
  | InvalidArgument string
  | ObjectError string
  | CheckFailed string
  | Undefined string
  | OutOfFuel

fun is_status :: "error \<Rightarrow> bool" where
  "is_status (AstError m) = True"
| "is_status (Unimplemented m) = True"
| "is_status (InvalidArgument m) = True"
| "is_status (ObjectError m) = True"
| "is_status (CheckFailed m) = False"
| "is_status (Undefined m) = False"
| "is_status OutOfFuel = False"

subsection \<open>The syntax tree (pypa)\<close>

text \<open>
  The node kinds that \<^verbatim>\<open>Process\<close> and \<^verbatim>\<open>ProcessASTSuite\<close> switch on. Operators are
  kept as the string \<^verbatim>\<open>pypa::to_string\<close> gives. \<open>OtherExpr\<close>, \<open>OtherSlice\<close>,
  \<open>OtherParam\<close>, \<open>OtherBody\<close> and \<open>OtherStmt\<close> stand for every kind the visitor has no
  case for and carry the name \<^verbatim>\<open>GetAstTypeName\<close> prints.
\<close>

datatype number = Integer int | Long int | Float real

datatype expr =
    Name string
  | Number number
  | Str string
  | Attribute expr expr
  | Subscript expr slice
  | Call expr "expr list" "(string \<times> expr) list"
  | List "expr list"
  | Tuple "expr list"
  | BinOp string expr expr
  | BoolOp string "expr list"
  | Compare expr "string list" "expr list"
  | UnaryOp string expr
  | OtherExpr string
and slice = Index expr | OtherSlice string

datatype param = Arg string "expr option" | OtherParam string

datatype import_names = Alias string "string option" | AliasTuple "(string \<times> string option) list"
  | OtherNames string

datatype stmt =
    Import string "string option"
  | ImportFrom nat string import_names
  | ExpressionStatement expr
  | Assign "expr list" expr
  | FunctionDef expr "param list" nat "expr option list" "expr option" "expr option" body "expr list"
  | DocString string
  | Return "expr option"
  | OtherStmt string
and body = Suite "stmt list" | OtherBody string

fun GetAstTypeName :: "expr \<Rightarrow> string" where
  "GetAstTypeName (Name n) = ''Name''"
| "GetAstTypeName (Number n) = ''Number''"
| "GetAstTypeName (Str s) = ''Str''"
| "GetAstTypeName (Attribute v a) = ''Attribute''"
| "GetAstTypeName (Subscript v sl) = ''Subscript''"
| "GetAstTypeName (Call f as ks) = ''Call''"
| "GetAstTypeName (List es) = ''List''"
| "GetAstTypeName (Tuple es) = ''Tuple''"
| "GetAstTypeName (BinOp oper l r) = ''BinOp''"
| "GetAstTypeName (BoolOp oper vs) = ''BoolOp''"
| "GetAstTypeName (Compare l ops cs) = ''Compare''"
| "GetAstTypeName (UnaryOp oper v) = ''UnaryOp''"
| "GetAstTypeName (OtherExpr t) = t"

subsection \<open>IR nodes and the graph\<close>

text \<open>
  \<^verbatim>\<open>FuncIR::Op\<close> and its opcode enumeration are declared in the IR header, which is
  not among the sources; the visitor names one opcode only, \<^verbatim>\<open>non_op\<close>.
\<close>

datatype opcode = non_op | opc string

record func_op =
  op_code :: opcode
  python_op :: string
  carnot_op_name :: string

datatype data_type = BOOLEAN | INT64 | UINT128 | FLOAT64 | STRING | TIME64NS | DURATION64NS
  | DATA_TYPE_UNKNOWN

datatype ir_node =
    BoolIR bool
  | IntIR int
  | FloatIR real
  | StringIR string
  | TimeIR int
  | ColumnIR string
  | FuncIR func_op "nat list"
  | MapIR "nat option" "(string \<times> nat) list" bool
  | MemorySinkIR "nat option" string "string list"
  | OtherIR string "nat list"

text \<open>
  Modelled from the spec: the IR graph (class \<^verbatim>\<open>IR\<close>) is missing from the sources.
  It owns the nodes, gives each a stable id that is never used again within a compile,
  and deletes a node by id; deletion fails when the node is not in the graph or is still
  the operand of a node of the graph.
\<close>

record ir =
  nodes :: "(nat \<times> ir_node) list"
  next_id :: nat

definition ids :: "ir \<Rightarrow> nat set" where
  "ids g = fst ` set (nodes g)"

definition CreateNode :: "ir_node \<Rightarrow> ir \<Rightarrow> nat \<times> ir" where
  "CreateNode n g = (next_id g, g\<lparr>nodes := nodes g @ [(next_id g, n)], next_id := Suc (next_id g)\<rparr>)"

fun operands :: "ir_node \<Rightarrow> nat list" where
  "operands (FuncIR f as) = as"
| "operands (MapIR p cs k) = (case p of None \<Rightarrow> [] | Some i \<Rightarrow> [i]) @ map snd cs"
| "operands (MemorySinkIR p n cs) = (case p of None \<Rightarrow> [] | Some i \<Rightarrow> [i])"
| "operands (OtherIR t as) = as"
| "operands n = []"

definition DeleteNode :: "nat \<Rightarrow> ir \<Rightarrow> error + ir" where
  "DeleteNode i g =
     (if i \<notin> fst ` set (nodes g) then Inl (InvalidArgument ''No such node in graph.'')
      else if list_ex (\<lambda>(j, n). i \<in> set (operands n)) (nodes g)
        then Inl (InvalidArgument ''Node has consumers.'')
      else Inr (g\<lparr>nodes := filter (\<lambda>(j, n). j \<noteq> i) (nodes g)\<rparr>))"

definition is_column :: "ir \<Rightarrow> nat \<Rightarrow> bool" where
  "is_column g i = (case map_of (nodes g) i of Some (ColumnIR c) \<Rightarrow> True | _ \<Rightarrow> False)"

definition is_operator :: "ir \<Rightarrow> nat \<Rightarrow> bool" where
  "is_operator g i = (case map_of (nodes g) i of Some (MapIR p cs k) \<Rightarrow> True
     | Some (MemorySinkIR p n cs) \<Rightarrow> True | _ \<Rightarrow> False)"

subsection \<open>Objects\<close>

text \<open>
  The script-visible objects (\<^verbatim>\<open>QLObject\<close> and its subclasses; their sources are
  missing, the visitor uses them through their interface). An \<open>ExprObject\<close> holds the id
  of its IR node, a \<open>Dataframe\<close> the id of its operator, which may be null. A
  \<open>FuncObject\<close> has its name, its parameter names, the data types of its annotated
  parameters (\<^verbatim>\<open>arg_types()\<close>) and its implementation: either native, named by a
  string, or the closure that \<^verbatim>\<open>ProcessFunctionDefNode\<close> binds:
  \<^verbatim>\<open>FuncDefHandler\<close> with the visitor (its variable table), the parameter names, the
  annotation objects and the body.
\<close>

datatype qlobject =
    ExprObject nat
  | TypeObject data_type
  | NoneObject
  | ListObject "qlobject list"
  | TupleObject "qlobject list"
  | Dataframe "nat option"
  | FuncObject string "string list" "(string \<times> data_type) list" func_impl
  | Module string "(string \<times> qlobject) list"
and func_impl =
    Native string
  | UserDefined nat "string list" "(string \<times> qlobject) list" "stmt list"

datatype qlobject_type = kExpr | kType | kNone | kList | kTuple | kDataframe | kFunction | kModule

fun type_of :: "qlobject \<Rightarrow> qlobject_type" where
  "type_of (ExprObject i) = kExpr"
| "type_of (TypeObject t) = kType"
| "type_of NoneObject = kNone"
| "type_of (ListObject xs) = kList"
| "type_of (TupleObject xs) = kTuple"
| "type_of (Dataframe p) = kDataframe"
| "type_of (FuncObject n ps ts f) = kFunction"
| "type_of (Module n as) = kModule"

fun obj_name :: "qlobject \<Rightarrow> string" where
  "obj_name (ExprObject i) = ''Expression''"
| "obj_name (TypeObject t) = ''Type''"
| "obj_name NoneObject = ''None''"
| "obj_name (ListObject xs) = ''List''"
| "obj_name (TupleObject xs) = ''Tuple''"
| "obj_name (Dataframe p) = ''DataFrame''"
| "obj_name (FuncObject n ps ts f) = ''Function''"
| "obj_name (Module n as) = ''Module''"

fun IsCollection :: "qlobject \<Rightarrow> bool" where
  "IsCollection (ListObject xs) = True"
| "IsCollection (TupleObject xs) = True"
| "IsCollection obj = False"

fun items :: "qlobject \<Rightarrow> qlobject list" where
  "items (ListObject xs) = xs"
| "items (TupleObject xs) = xs"
| "items obj = []"

record arg_map =
  kwargs :: "(string \<times> qlobject) list"
  args :: "qlobject list"

subsection \<open>Variable tables\<close>

text \<open>
  Modelled from the spec: \<^verbatim>\<open>VarTable\<close> is missing from the sources. A table binds
  names to objects and has an optional parent; a lookup that misses in a table goes on
  in its parent, so a binding in a child shadows the parent's. The tables live in a store
  (a function object keeps the table of the visitor that defined it), a table is named by
  its index in the store, and a parent is always older than its child.
\<close>

record var_table =
  bindings :: "(string \<times> qlobject) list"
  parent :: "nat option"

function Lookup :: "var_table list \<Rightarrow> nat \<Rightarrow> string \<Rightarrow> qlobject option" where
  "Lookup ts vt name =
     (if vt < length ts then
        (case map_of (bindings (ts ! vt)) name of
           Some obj \<Rightarrow> Some obj
         | None \<Rightarrow> (case parent (ts ! vt) of
                      None \<Rightarrow> None
                    | Some p \<Rightarrow> if p < vt then Lookup ts p name else None))
      else None)"
  by pat_completeness auto
termination
  by (relation "measure (\<lambda>(ts, vt, name). vt)") auto

declare Lookup.simps [simp del]

definition Add :: "nat \<Rightarrow> string \<Rightarrow> qlobject \<Rightarrow> var_table list \<Rightarrow> var_table list" where
  "Add vt name obj ts =
     (if vt < length ts then ts[vt := (ts ! vt)\<lparr>bindings := (name, obj) # bindings (ts ! vt)\<rparr>]
      else ts)"

definition CreateChildTable :: "nat \<Rightarrow> var_table list \<Rightarrow> nat \<times> var_table list" where
  "CreateChildTable vt ts = (length ts, ts @ [\<lparr>bindings = [], parent = Some vt\<rparr>])"

subsection \<open>The visitor's state\<close>

record state =
  ir_graph :: ir
  var_tables :: "var_table list"
  module_handler :: "(string \<times> qlobject) list"

definition graph_create :: "ir_node \<Rightarrow> state \<Rightarrow> nat \<times> state" where
  "graph_create n s = (let (i, g) = CreateNode n (ir_graph s) in (i, s\<lparr>ir_graph := g\<rparr>))"

definition table_add :: "nat \<Rightarrow> string \<Rightarrow> qlobject \<Rightarrow> state \<Rightarrow> state" where
  "table_add vt name obj s = s\<lparr>var_tables := Add vt name obj (var_tables s)\<rparr>"

definition table_lookup :: "state \<Rightarrow> nat \<Rightarrow> string \<Rightarrow> qlobject option" where
  "table_lookup s vt name = Lookup (var_tables s) vt name"

subsection \<open>What the visitor uses and the sources do not hold\<close>

text \<open>
  The operator tables of \<^verbatim>\<open>FuncIR\<close>, the string parsers of Abseil, the build mode
  (a \<^verbatim>\<open>DCHECK\<close> is compiled in debug builds only) and the methods of the objects are
  parameters of the embedding. \<open>call_attribute\<close> gives the callable of an object that is
  no function, \<open>NodeMatches\<close> is the test of a Type object on a node, \<open>native_call\<close>
  runs a native function, found by its name, on its bound arguments;
  \<open>PixieModule_Create\<close> and \<open>Module_Create\<close> build the modules.
\<close>

record env =
  op_map :: "(string \<times> func_op) list"
  unary_op_map :: "(string \<times> func_op) list"
  dchecks :: bool
  SimpleAtob :: "string \<Rightarrow> bool option"
  SimpleAtoi :: "string \<Rightarrow> int option"
  SimpleAtod :: "string \<Rightarrow> real option"
  HasAttribute :: "qlobject \<Rightarrow> string \<Rightarrow> bool"
  GetAttribute :: "qlobject \<Rightarrow> string \<Rightarrow> state \<Rightarrow> error + qlobject \<times> state"
  GetSubscriptMethod :: "qlobject \<Rightarrow> qlobject option"
  call_attribute :: "qlobject \<Rightarrow> qlobject option"
  NodeMatches :: "data_type \<Rightarrow> ir_node option \<Rightarrow> error + unit"
  AssignAttribute :: "qlobject \<Rightarrow> string \<Rightarrow> qlobject \<Rightarrow> state \<Rightarrow> error + state"
  native_call :: "string \<Rightarrow> (string \<times> qlobject) list \<Rightarrow> state \<Rightarrow> error + qlobject \<times> state"
  PixieModule_Create :: "state \<Rightarrow> error + qlobject \<times> state"
  Module_Create :: "string \<Rightarrow> state \<Rightarrow> error + qlobject \<times> state"

text \<open>
  Modelled from the spec: the names of the globals are constants of the visitor's header,
  which is missing; the spec names them \<open>bool\<close>, \<open>int\<close>, \<open>float\<close>, \<open>string\<close>, \<open>None\<close>,
  \<open>True\<close> and \<open>False\<close>. So are the name of the pre-built module and the operator name
  of a map.
\<close>

definition kStringTypeName :: string where "kStringTypeName = ''string''"
definition kIntTypeName :: string where "kIntTypeName = ''int''"
definition kFloatTypeName :: string where "kFloatTypeName = ''float''"
definition kBoolTypeName :: string where "kBoolTypeName = ''bool''"
definition kNoneName :: string where "kNoneName = ''None''"
definition kTrueName :: string where "kTrueName = ''True''"
definition kFalseName :: string where "kFalseName = ''False''"
definition kPixieModuleObjName :: string where "kPixieModuleObjName = ''px''"
definition kMapOpId :: string where "kMapOpId = ''map''"

datatype ir_node_type = kString | kInt | kFloat | kBool | kTime

text \<open>Modelled from the spec: a Type object is the marker of a primitive data type.\<close>

fun TypeObject_Create :: "ir_node_type \<Rightarrow> qlobject" where
  "TypeObject_Create kString = TypeObject STRING"
| "TypeObject_Create kInt = TypeObject INT64"
| "TypeObject_Create kFloat = TypeObject FLOAT64"
| "TypeObject_Create kBool = TypeObject BOOLEAN"
| "TypeObject_Create kTime = TypeObject TIME64NS"

subsection \<open>Operator lookup\<close>

text \<open>
  The two operator tables of \<^verbatim>\<open>FuncIR\<close> are hash maps. An iterator of such a table
  is at an entry or past the end; the past-the-end iterator of a hash map points at no
  entry, whichever table it comes from, so the end of one table compares equal to the end
  of the other.
\<close>

datatype iterator = At func_op | End

definition find_op :: "(string \<times> func_op) list \<Rightarrow> string \<Rightarrow> iterator" where
  "find_op tbl k = (case map_of tbl k of None \<Rightarrow> End | Some v \<Rightarrow> At v)"

definition map_end :: "(string \<times> func_op) list \<Rightarrow> iterator" where
  "map_end tbl = End"

fun second :: "iterator \<Rightarrow> error + func_op" where
  "second (At v) = Inr v"
| "second End = Inl (Undefined ''dereference of end()'')"

definition GetOp :: "env \<Rightarrow> string \<Rightarrow> error + func_op" where
  "GetOp E op_str =
     (let op_find = find_op (op_map E) op_str in
      if op_find = map_end (op_map E)
      then Inl (AstError (''Operator '' @ [CHR 0x27] @ op_str @ [CHR 0x27] @ '' not handled''))
      else second op_find)"

text \<open>
  \<^verbatim>\<open>GetUnaryOp\<close> searches the table of the unary operators and compares what it
  finds with the end of the other table, as the C++ does.
\<close>

definition GetUnaryOp :: "env \<Rightarrow> string \<Rightarrow> error + func_op" where
  "GetUnaryOp E op_str =
     (let op_find = find_op (unary_op_map E) op_str in
      if op_find = map_end (op_map E)
      then Inl (AstError (''Unary Operator '' @ [CHR 0x27] @ op_str @ [CHR 0x27] @ '' not handled''))
      else second op_find)"

subsection \<open>Creating a visitor\<close>

definition CreateBoolLiterals :: "nat \<Rightarrow> state \<Rightarrow> error + state" where
  "CreateBoolLiterals vt s =
     (let (true_ir, s1) = graph_create (BoolIR True) s;
          s2 = table_add vt kTrueName (ExprObject true_ir) s1;
          (false_ir, s3) = graph_create (BoolIR False) s2;
          s4 = table_add vt kFalseName (ExprObject false_ir) s3
      in Inr s4)"

definition InitGlobals :: "nat \<Rightarrow> state \<Rightarrow> error + state" where
  "InitGlobals vt s =
     (let s1 = table_add vt kStringTypeName (TypeObject_Create kString) s;
          s2 = table_add vt kIntTypeName (TypeObject_Create kInt) s1;
          s3 = table_add vt kFloatTypeName (TypeObject_Create kFloat) s2;
          s4 = table_add vt kBoolTypeName (TypeObject_Create kBool) s3;
          s5 = table_add vt kNoneName NoneObject s4
      in CreateBoolLiterals vt s5)"

fun SetupModule_pxls :: "env \<Rightarrow> (string \<times> string) list \<Rightarrow> state \<Rightarrow> error + state" where
  "SetupModule_pxls E [] s = Inr s"
| "SetupModule_pxls E ((module_name, module_text) # rest) s =
     (case Module_Create E module_text s of
        Inl e \<Rightarrow> Inl e
      | Inr (m, s1) \<Rightarrow>
          SetupModule_pxls E rest (s1\<lparr>module_handler := (module_name, m) # module_handler s1\<rparr>))"

definition SetupModules :: "env \<Rightarrow> (string \<times> string) list \<Rightarrow> state \<Rightarrow> error + state" where
  "SetupModules E module_name_to_pxl_map s =
     (case PixieModule_Create E s of
        Inl e \<Rightarrow> Inl e
      | Inr (px, s1) \<Rightarrow>
          SetupModule_pxls E module_name_to_pxl_map
            (s1\<lparr>module_handler := (kPixieModuleObjName, px) # module_handler s1\<rparr>))"

text \<open>
  \<^verbatim>\<open>Create\<close> makes the visitor on a graph it is given, with a new variable table
  (\<^verbatim>\<open>VarTable::Create()\<close>), which is table 0 of the store.
\<close>

definition new_visitor :: "ir \<Rightarrow> (string \<times> qlobject) list \<Rightarrow> state" where
  "new_visitor graph handler =
     \<lparr>ir_graph = graph, var_tables = [\<lparr>bindings = [], parent = None\<rparr>], module_handler = handler\<rparr>"

definition Create :: "env \<Rightarrow> ir \<Rightarrow> (string \<times> qlobject) list \<Rightarrow> (string \<times> string) list \<Rightarrow> error + state" where
  "Create E graph handler module_map =
     (case InitGlobals 0 (new_visitor graph handler) of
        Inl e \<Rightarrow> Inl e
      | Inr s \<Rightarrow> SetupModules E module_map s)"

subsection \<open>Helpers of the object model\<close>

record operator_context =
  parent_ops :: "nat list"
  operator_name :: string
  referenceable_dataframes :: "string list"

definition no_context :: operator_context where
  "no_context = \<lparr>parent_ops = [], operator_name = [], referenceable_dataframes = []\<rparr>"

type_synonym process = "expr \<Rightarrow> operator_context \<Rightarrow> nat \<Rightarrow> state \<Rightarrow> error + qlobject \<times> state"
type_synonym suite = "stmt list \<Rightarrow> bool \<Rightarrow> nat \<Rightarrow> state \<Rightarrow> error + qlobject \<times> state"

definition quoted :: "string \<Rightarrow> string" where
  "quoted x = [CHR 0x27] @ x @ [CHR 0x27]"

text \<open>A number in decimal, as \<^verbatim>\<open>absl::Substitute\<close> prints it.\<close>

definition digit_char :: "nat \<Rightarrow> char" where
  "digit_char d =
     (if d = 0 then CHR ''0'' else if d = 1 then CHR ''1'' else if d = 2 then CHR ''2''
      else if d = 3 then CHR ''3'' else if d = 4 then CHR ''4'' else if d = 5 then CHR ''5''
      else if d = 6 then CHR ''6'' else if d = 7 then CHR ''7'' else if d = 8 then CHR ''8''
      else CHR ''9'')"

function string_of_nat :: "nat \<Rightarrow> string" where
  "string_of_nat n =
     (if n < 10 then [digit_char n] else string_of_nat (n div 10) @ [digit_char (n mod 10)])"
  by pat_completeness auto
termination
  by (relation "measure id") auto

declare string_of_nat.simps [simp del]

text \<open>
  Modelled from the spec: \<^verbatim>\<open>GetArgAs\<close> and \<^verbatim>\<open>GetCallMethod\<close> are missing from the
  sources. \<^verbatim>\<open>GetArgAs<T>\<close> gives the IR node of an object when the object has one of
  kind \<open>T\<close>; the callable of an object is the object itself when it is a function, else
  what its call attribute gives.
\<close>

definition GetArgAs_ExpressionIR :: "state \<Rightarrow> qlobject \<Rightarrow> string \<Rightarrow> error + nat" where
  "GetArgAs_ExpressionIR s obj what =
     (case obj of
        ExprObject i \<Rightarrow> Inr i
      | _ \<Rightarrow> Inl (ObjectError (''Expected an expression for '' @ what)))"

definition GetArgAs_ColumnIR :: "state \<Rightarrow> qlobject \<Rightarrow> string \<Rightarrow> error + nat" where
  "GetArgAs_ColumnIR s obj what =
     (case obj of
        ExprObject i \<Rightarrow>
          if is_column (ir_graph s) i then Inr i
          else Inl (ObjectError (''Expected a column for '' @ what))
      | _ \<Rightarrow> Inl (ObjectError (''Expected a column for '' @ what)))"

definition GetCallMethod :: "env \<Rightarrow> qlobject \<Rightarrow> error + qlobject" where
  "GetCallMethod E obj =
     (if type_of obj = kFunction then Inr obj
      else (case call_attribute E obj of
              None \<Rightarrow> Inl (AstError (quoted (obj_name obj) @ '' object is not callable''))
            | Some f \<Rightarrow> if type_of f = kFunction then Inr f
                        else Inl (AstError (quoted (obj_name obj) @ '' object is not callable''))))"

fun node_of :: "qlobject \<Rightarrow> nat option" where
  "node_of (ExprObject i) = Some i"
| "node_of (Dataframe p) = p"
| "node_of obj = None"

text \<open>
  Modelled from the spec: \<^verbatim>\<open>FuncObject::Call\<close> is missing from the sources. It binds
  the positional values to the declared parameters in order, then overlays the keywords;
  an unknown or a missing parameter fails. A native function then runs on the bound
  arguments; a function defined in the script runs \<^verbatim>\<open>FuncDefHandler\<close>.
\<close>

fun bind_positional :: "string list \<Rightarrow> qlobject list \<Rightarrow> error + (string \<times> qlobject) list" where
  "bind_positional ps [] = Inr []"
| "bind_positional [] (a # as) = Inl (ObjectError ''Too many positional arguments.'')"
| "bind_positional (p # ps) (a # as) =
     (case bind_positional ps as of Inl e \<Rightarrow> Inl e | Inr b \<Rightarrow> Inr ((p, a) # b))"

fun bind_keywords :: "string list \<Rightarrow> (string \<times> qlobject) list \<Rightarrow> (string \<times> qlobject) list
    \<Rightarrow> error + (string \<times> qlobject) list" where
  "bind_keywords ps b [] = Inr b"
| "bind_keywords ps b ((k, v) # kws) =
     (if k \<in> set ps then bind_keywords ps ((k, v) # b) kws
      else Inl (ObjectError (''Unexpected keyword argument '' @ quoted k)))"

definition PrepareArgs :: "string list \<Rightarrow> arg_map \<Rightarrow> error + (string \<times> qlobject) list" where
  "PrepareArgs ps am =
     (case bind_positional ps (args am) of
        Inl e \<Rightarrow> Inl e
      | Inr b \<Rightarrow>
          (case bind_keywords ps b (kwargs am) of
             Inl e \<Rightarrow> Inl e
           | Inr b' \<Rightarrow>
               if list_all (\<lambda>p. map_of b' p \<noteq> None) ps then Inr b'
               else Inl (ObjectError ''Missing argument.'')))"

subsection \<open>Calling a function of the script\<close>

definition DoesArgMatchAnnotation :: "env \<Rightarrow> state \<Rightarrow> qlobject \<Rightarrow> qlobject \<Rightarrow> error + unit" where
  "DoesArgMatchAnnotation E s ql_arg annotation_obj =
     (if dchecks E \<and> node_of ql_arg = None then Inl (CheckFailed ''ql_arg->HasNode()'')
      else (case annotation_obj of
              TypeObject t \<Rightarrow>
                (case node_of ql_arg of
                   None \<Rightarrow> Inl (Undefined ''null node'')
                 | Some arg \<Rightarrow>
                     if is_operator (ir_graph s) arg
                     then Inl (ObjectError (''Expected a value, received an operator''))
                     else NodeMatches E t (map_of (nodes (ir_graph s)) arg))
            | _ \<Rightarrow>
                if type_of annotation_obj \<noteq> type_of ql_arg then
                  (case node_of ql_arg of
                     None \<Rightarrow> Inl (Undefined ''null node'')
                   | Some arg \<Rightarrow>
                       Inl (ObjectError (''Expected '' @ quoted (obj_name annotation_obj)
                              @ '', received '' @ quoted (obj_name ql_arg))))
                else Inr ()))"

fun FuncDefHandler_args :: "env \<Rightarrow> string list \<Rightarrow> (string \<times> qlobject) list
    \<Rightarrow> (string \<times> qlobject) list \<Rightarrow> nat \<Rightarrow> state \<Rightarrow> error + state" where
  "FuncDefHandler_args E [] arg_annotation_objs parsed fv s = Inr s"
| "FuncDefHandler_args E (arg_name # rest) arg_annotation_objs parsed fv s =
     (case map_of parsed arg_name of
        None \<Rightarrow> Inl (Undefined ''GetArg of an unbound argument'')
      | Some arg_object \<Rightarrow>
          (case (case map_of arg_annotation_objs arg_name of
                   None \<Rightarrow> Inr ()
                 | Some a \<Rightarrow> DoesArgMatchAnnotation E s arg_object a) of
             Inl e \<Rightarrow> Inl e
           | Inr u \<Rightarrow>
               FuncDefHandler_args E rest arg_annotation_objs parsed fv
                 (table_add fv arg_name arg_object s)))"

definition FuncDefHandler :: "env \<Rightarrow> suite \<Rightarrow> nat \<Rightarrow> string list \<Rightarrow> (string \<times> qlobject) list
    \<Rightarrow> stmt list \<Rightarrow> (string \<times> qlobject) list \<Rightarrow> state \<Rightarrow> error + qlobject \<times> state" where
  "FuncDefHandler E S vt arg_names arg_annotation_objs body parsed s =
     (let (func_visitor, ts) = CreateChildTable vt (var_tables s);
          s1 = s\<lparr>var_tables := ts\<rparr>
      in case FuncDefHandler_args E arg_names arg_annotation_objs parsed func_visitor s1 of
           Inl e \<Rightarrow> Inl e
         | Inr s2 \<Rightarrow> S body True func_visitor s2)"

fun FuncObject_Call :: "env \<Rightarrow> suite \<Rightarrow> qlobject \<Rightarrow> arg_map \<Rightarrow> state \<Rightarrow> error + qlobject \<times> state" where
  "FuncObject_Call E S (FuncObject fname ps ts impl) am s =
     (case PrepareArgs ps am of
        Inl e \<Rightarrow> Inl e
      | Inr parsed \<Rightarrow>
          (case impl of
             Native f \<Rightarrow> native_call E f parsed s
           | UserDefined vt arg_names arg_annotation_objs body \<Rightarrow>
               FuncDefHandler E S vt arg_names arg_annotation_objs body parsed s))"
| "FuncObject_Call E S obj am s = Inl (Undefined ''call of an object that is no function'')"

subsection \<open>Expressions\<close>

text \<open>
  Every function below that evaluates a sub-expression takes the evaluator \<open>P\<close> for it
  (\<^verbatim>\<open>Process\<close> in the C++), and every function that may call a function of the script
  takes the evaluator \<open>S\<close> of a function body (\<^verbatim>\<open>ProcessASTSuite\<close> on the child
  visitor); the two are tied to \<open>Process\<close> and \<open>ProcessASTSuite\<close> at the end. The
  argument \<open>vt\<close> is the variable table of the visitor that runs.
\<close>

definition LookupVariable :: "string \<Rightarrow> nat \<Rightarrow> state \<Rightarrow> error + qlobject \<times> state" where
  "LookupVariable x vt s =
     (case table_lookup s vt x of
        None \<Rightarrow> Inl (AstError (''name '' @ quoted x @ '' is not defined''))
      | Some var \<Rightarrow> Inr (var, s))"

definition ProcessStr :: "string \<Rightarrow> state \<Rightarrow> error + qlobject \<times> state" where
  "ProcessStr str_value s = (let (i, s1) = graph_create (StringIR str_value) s in Inr (ExprObject i, s1))"

fun ProcessNumber :: "number \<Rightarrow> state \<Rightarrow> error + qlobject \<times> state" where
  "ProcessNumber (Float f) s = (let (i, s1) = graph_create (FloatIR f) s in Inr (ExprObject i, s1))"
| "ProcessNumber (Integer n) s = (let (i, s1) = graph_create (IntIR n) s in Inr (ExprObject i, s1))"
| "ProcessNumber (Long n) s = (let (i, s1) = graph_create (IntIR n) s in Inr (ExprObject i, s1))"

fun ProcessCollectionChildren :: "process \<Rightarrow> expr list \<Rightarrow> operator_context \<Rightarrow> nat \<Rightarrow> state
    \<Rightarrow> error + qlobject list \<times> state" where
  "ProcessCollectionChildren P [] ctx vt s = Inr ([], s)"
| "ProcessCollectionChildren P (child # rest) ctx vt s =
     (case P child ctx vt s of
        Inl e \<Rightarrow> Inl e
      | Inr (child_node, s1) \<Rightarrow>
          (case ProcessCollectionChildren P rest ctx vt s1 of
             Inl e \<Rightarrow> Inl e
           | Inr (children, s2) \<Rightarrow> Inr (child_node # children, s2)))"

definition ProcessList :: "process \<Rightarrow> expr list \<Rightarrow> operator_context \<Rightarrow> nat \<Rightarrow> state
    \<Rightarrow> error + qlobject \<times> state" where
  "ProcessList P elements ctx vt s =
     (case ProcessCollectionChildren P elements ctx vt s of
        Inl e \<Rightarrow> Inl e
      | Inr (expr_vec, s1) \<Rightarrow> Inr (ListObject expr_vec, s1))"

definition ProcessTuple :: "process \<Rightarrow> expr list \<Rightarrow> operator_context \<Rightarrow> nat \<Rightarrow> state
    \<Rightarrow> error + qlobject \<times> state" where
  "ProcessTuple P elements ctx vt s =
     (case ProcessCollectionChildren P elements ctx vt s of
        Inl e \<Rightarrow> Inl e
      | Inr (expr_vec, s1) \<Rightarrow> Inr (TupleObject expr_vec, s1))"

definition create_func :: "func_op \<Rightarrow> nat list \<Rightarrow> state \<Rightarrow> error + qlobject \<times> state" where
  "create_func f operand_ids s = (let (i, s1) = graph_create (FuncIR f operand_ids) s in Inr (ExprObject i, s1))"

definition ProcessDataBinOp :: "env \<Rightarrow> process \<Rightarrow> string \<Rightarrow> expr \<Rightarrow> expr \<Rightarrow> operator_context
    \<Rightarrow> nat \<Rightarrow> state \<Rightarrow> error + qlobject \<times> state" where
  "ProcessDataBinOp E P op_str l r ctx vt s =
     (case P l ctx vt s of
        Inl e \<Rightarrow> Inl e
      | Inr (left_obj, s1) \<Rightarrow>
     (case P r ctx vt s1 of
        Inl e \<Rightarrow> Inl e
      | Inr (right_obj, s2) \<Rightarrow>
     (case GetArgAs_ExpressionIR s2 left_obj ''left side of operation'' of
        Inl e \<Rightarrow> Inl e
      | Inr left \<Rightarrow>
     (case GetArgAs_ExpressionIR s2 right_obj ''right side of operation'' of
        Inl e \<Rightarrow> Inl e
      | Inr right \<Rightarrow>
     (case GetOp E op_str of
        Inl e \<Rightarrow> Inl e
      | Inr f \<Rightarrow> create_func f [left, right] s2)))))"

definition ProcessDataBoolOp :: "env \<Rightarrow> process \<Rightarrow> string \<Rightarrow> expr list \<Rightarrow> operator_context
    \<Rightarrow> nat \<Rightarrow> state \<Rightarrow> error + qlobject \<times> state" where
  "ProcessDataBoolOp E P op_str vals ctx vt s =
     (if length vals \<noteq> 2
      then Inl (AstError (''Expected two arguments to '' @ quoted op_str @ ''.''))
      else
     (case P (vals ! 0) ctx vt s of
        Inl e \<Rightarrow> Inl e
      | Inr (left_obj, s1) \<Rightarrow>
     (case P (vals ! 1) ctx vt s1 of
        Inl e \<Rightarrow> Inl e
      | Inr (right_obj, s2) \<Rightarrow>
     (case GetArgAs_ExpressionIR s2 left_obj ''left side of operation'' of
        Inl e \<Rightarrow> Inl e
      | Inr left \<Rightarrow>
     (case GetArgAs_ExpressionIR s2 right_obj ''right side of operation'' of
        Inl e \<Rightarrow> Inl e
      | Inr right \<Rightarrow>
     (case GetOp E op_str of
        Inl e \<Rightarrow> Inl e
      | Inr f \<Rightarrow> create_func f [left, right] s2))))))"

fun ProcessComparators :: "process \<Rightarrow> expr list \<Rightarrow> operator_context \<Rightarrow> nat \<Rightarrow> state
    \<Rightarrow> error + nat list \<times> state" where
  "ProcessComparators P [] ctx vt s = Inr ([], s)"
| "ProcessComparators P (cmp # rest) ctx vt s =
     (case P cmp ctx vt s of
        Inl e \<Rightarrow> Inl e
      | Inr (obj, s1) \<Rightarrow>
     (case GetArgAs_ExpressionIR s1 obj ''argument to operation'' of
        Inl e \<Rightarrow> Inl e
      | Inr ex \<Rightarrow>
     (case ProcessComparators P rest ctx vt s1 of
        Inl e \<Rightarrow> Inl e
      | Inr (exs, s2) \<Rightarrow> Inr (ex # exs, s2))))"

definition ProcessDataCompare :: "env \<Rightarrow> process \<Rightarrow> expr \<Rightarrow> string list \<Rightarrow> expr list
    \<Rightarrow> operator_context \<Rightarrow> nat \<Rightarrow> state \<Rightarrow> error + qlobject \<times> state" where
  "ProcessDataCompare E P l operators comparators ctx vt s =
     (if dchecks E \<and> length operators \<noteq> 1 then Inl (CheckFailed ''node->operators.size() == 1'')
      else (case operators of
        [] \<Rightarrow> Inl (Undefined ''operators[0] of an empty vector'')
      | op_str # other_ops \<Rightarrow>
     (if length comparators \<noteq> 1
      then Inl (AstError (''Only expected one argument to the right of '' @ quoted op_str @ ''.''))
      else
     (case P l ctx vt s of
        Inl e \<Rightarrow> Inl e
      | Inr (left_obj, s1) \<Rightarrow>
     (case GetArgAs_ExpressionIR s1 left_obj ''left side of operation'' of
        Inl e \<Rightarrow> Inl e
      | Inr left \<Rightarrow>
     (case ProcessComparators P comparators ctx vt s1 of
        Inl e \<Rightarrow> Inl e
      | Inr (exs, s2) \<Rightarrow>
     (case GetOp E op_str of
        Inl e \<Rightarrow> Inl e
      | Inr f \<Rightarrow> create_func f (left # exs) s2)))))))"

definition ProcessDataUnaryOp :: "env \<Rightarrow> process \<Rightarrow> string \<Rightarrow> expr \<Rightarrow> operator_context
    \<Rightarrow> nat \<Rightarrow> state \<Rightarrow> error + qlobject \<times> state" where
  "ProcessDataUnaryOp E P op_str operand_node ctx vt s =
     (case P operand_node ctx vt s of
        Inl e \<Rightarrow> Inl e
      | Inr (operand_obj, s1) \<Rightarrow>
     (case GetArgAs_ExpressionIR s1 operand_obj ''operand of unary op'' of
        Inl e \<Rightarrow> Inl e
      | Inr operand \<Rightarrow>
     (case GetUnaryOp E op_str of
        Inl e \<Rightarrow> Inl e
      | Inr f \<Rightarrow>
          if op_code f = non_op then Inr (ExprObject operand, s1)
          else create_func f [operand] s1)))"

definition GetAttributeStr :: "expr \<Rightarrow> error + string" where
  "GetAttributeStr attribute =
     (case attribute of
        Name x \<Rightarrow> Inr x
      | _ \<Rightarrow> Inl (AstError (GetAstTypeName attribute @ '' not a valid attribute'')))"

definition ProcessAttribute :: "env \<Rightarrow> process \<Rightarrow> expr \<Rightarrow> expr \<Rightarrow> operator_context
    \<Rightarrow> nat \<Rightarrow> state \<Rightarrow> error + qlobject \<times> state" where
  "ProcessAttribute E P v attribute ctx vt s =
     (case GetAttributeStr attribute of
        Inl e \<Rightarrow> Inl e
      | Inr attr_name \<Rightarrow>
     (case P v ctx vt s of
        Inl e \<Rightarrow> Inl e
      | Inr (value_obj, s1) \<Rightarrow> GetAttribute E value_obj attr_name s1))"

fun ValidateSubscriptValue :: "expr \<Rightarrow> operator_context \<Rightarrow> error + unit" where
  "ValidateSubscriptValue (Attribute v a) ctx =
     (if operator_name ctx \<noteq> kMapOpId then Inr () else ValidateSubscriptValue v ctx)"
| "ValidateSubscriptValue (Name x) ctx =
     (if operator_name ctx \<noteq> kMapOpId then Inr ()
      else if x \<notin> set (referenceable_dataframes ctx)
        then Inl (AstError (''name '' @ quoted x @ '' is not available in this context''))
      else Inr ())"
| "ValidateSubscriptValue node ctx = Inr ()"

definition ProcessSubscriptCall :: "env \<Rightarrow> process \<Rightarrow> suite \<Rightarrow> expr \<Rightarrow> slice \<Rightarrow> operator_context
    \<Rightarrow> nat \<Rightarrow> state \<Rightarrow> error + qlobject \<times> state" where
  "ProcessSubscriptCall E P S v sl ctx vt s =
     (case ValidateSubscriptValue v ctx of
        Inl e \<Rightarrow> Inl e
      | Inr u \<Rightarrow>
     (case P v ctx vt s of
        Inl e \<Rightarrow> Inl e
      | Inr (pyobject, s1) \<Rightarrow>
     (case GetSubscriptMethod E pyobject of
        None \<Rightarrow> Inl (ObjectError (obj_name pyobject @ '' is not subscriptable''))
      | Some func_object \<Rightarrow>
     (case sl of
        OtherSlice t \<Rightarrow> Inl (AstError (quoted t @ '' object cannot be an index''))
      | Index ix \<Rightarrow>
          (let dfs = (case v of
                        Name x \<Rightarrow> referenceable_dataframes ctx @ [x]
                      | _ \<Rightarrow> referenceable_dataframes ctx);
               new_op_context = \<lparr>parent_ops = parent_ops ctx, operator_name = operator_name ctx,
                                 referenceable_dataframes = dfs\<rparr>
           in case P ix new_op_context vt s1 of
                Inl e \<Rightarrow> Inl e
              | Inr (arg, s2) \<Rightarrow> FuncObject_Call E S func_object \<lparr>kwargs = [], args = [arg]\<rparr> s2)))))"

fun ProcessKeywords :: "process \<Rightarrow> (string \<times> expr) list \<Rightarrow> operator_context \<Rightarrow> nat \<Rightarrow> state
    \<Rightarrow> error + (string \<times> qlobject) list \<times> state" where
  "ProcessKeywords P [] ctx vt s = Inr ([], s)"
| "ProcessKeywords P ((k, v) # rest) ctx vt s =
     (case P v ctx vt s of
        Inl e \<Rightarrow> Inl e
      | Inr (val, s1) \<Rightarrow>
          (case ProcessKeywords P rest ctx vt s1 of
             Inl e \<Rightarrow> Inl e
           | Inr (kws, s2) \<Rightarrow> Inr ((k, val) # kws, s2)))"

definition ProcessArgs :: "process \<Rightarrow> expr list \<Rightarrow> (string \<times> expr) list \<Rightarrow> operator_context
    \<Rightarrow> nat \<Rightarrow> state \<Rightarrow> error + arg_map \<times> state" where
  "ProcessArgs P arguments keywords ctx vt s =
     (case ProcessCollectionChildren P arguments ctx vt s of
        Inl e \<Rightarrow> Inl e
      | Inr (vals, s1) \<Rightarrow>
          (case ProcessKeywords P keywords ctx vt s1 of
             Inl e \<Rightarrow> Inl e
           | Inr (kws, s2) \<Rightarrow> Inr (\<lparr>kwargs = kws, args = vals\<rparr>, s2)))"

definition col_name :: "ir \<Rightarrow> nat \<Rightarrow> string" where
  "col_name g i = (case map_of (nodes g) i of Some (ColumnIR c) \<Rightarrow> c | _ \<Rightarrow> [])"

definition ProcessCallNode :: "env \<Rightarrow> process \<Rightarrow> suite \<Rightarrow> expr \<Rightarrow> expr list \<Rightarrow> (string \<times> expr) list
    \<Rightarrow> operator_context \<Rightarrow> nat \<Rightarrow> state \<Rightarrow> error + qlobject \<times> state" where
  "ProcessCallNode E P S fn arguments keywords ctx vt s =
     (case P fn ctx vt s of
        Inl e \<Rightarrow> Inl e
      | Inr (pyobject, s1) \<Rightarrow>
     (case pyobject of
        ExprObject i \<Rightarrow>
          if is_column (ir_graph s1) i
          then Inl (AstError (''dataframe has no method '' @ quoted (col_name (ir_graph s1) i)))
          else Inl (AstError ''expression object is not callable'')
      | _ \<Rightarrow>
     (case GetCallMethod E pyobject of
        Inl e \<Rightarrow> Inl e
      | Inr func_object \<Rightarrow>
     (case ProcessArgs P arguments keywords ctx vt s1 of
        Inl e \<Rightarrow> Inl e
      | Inr (am, s2) \<Rightarrow> FuncObject_Call E S func_object am s2))))"

fun Process_node :: "env \<Rightarrow> process \<Rightarrow> suite \<Rightarrow> expr \<Rightarrow> operator_context \<Rightarrow> nat \<Rightarrow> state
    \<Rightarrow> error + qlobject \<times> state" where
  "Process_node E P S (Call fn arguments keywords) ctx vt s = ProcessCallNode E P S fn arguments keywords ctx vt s"
| "Process_node E P S (Subscript v sl) ctx vt s = ProcessSubscriptCall E P S v sl ctx vt s"
| "Process_node E P S (Name x) ctx vt s = LookupVariable x vt s"
| "Process_node E P S (Attribute v a) ctx vt s = ProcessAttribute E P v a ctx vt s"
| "Process_node E P S (Str v) ctx vt s = ProcessStr v s"
| "Process_node E P S (Number n) ctx vt s = ProcessNumber n s"
| "Process_node E P S (List es) ctx vt s = ProcessList P es ctx vt s"
| "Process_node E P S (Tuple es) ctx vt s = ProcessTuple P es ctx vt s"
| "Process_node E P S (BinOp op_str l r) ctx vt s = ProcessDataBinOp E P op_str l r ctx vt s"
| "Process_node E P S (BoolOp op_str vs) ctx vt s = ProcessDataBoolOp E P op_str vs ctx vt s"
| "Process_node E P S (Compare l ops cs) ctx vt s = ProcessDataCompare E P l ops cs ctx vt s"
| "Process_node E P S (UnaryOp op_str v) ctx vt s = ProcessDataUnaryOp E P op_str v ctx vt s"
| "Process_node E P S (OtherExpr t) ctx vt s =
     Inl (AstError (''Expression node '' @ quoted t @ '' not defined''))"

subsection \<open>Imports\<close>

definition AsNameFromAlias :: "string \<Rightarrow> string option \<Rightarrow> string" where
  "AsNameFromAlias x as_name = (case as_name of None \<Rightarrow> x | Some a \<Rightarrow> a)"

definition ProcessImport :: "string \<Rightarrow> string option \<Rightarrow> nat \<Rightarrow> state \<Rightarrow> error + state" where
  "ProcessImport x as_name vt s =
     (case map_of (module_handler s) x of
        None \<Rightarrow> Inl (AstError (''ModuleNotFoundError: No module named '' @ quoted x))
      | Some m \<Rightarrow> Inr (table_add vt (AsNameFromAlias x as_name) m s))"

fun ProcessImportFrom_aliases :: "env \<Rightarrow> string \<Rightarrow> qlobject \<Rightarrow> (string \<times> string option) list
    \<Rightarrow> nat \<Rightarrow> state \<Rightarrow> error + state" where
  "ProcessImportFrom_aliases E m obj [] vt s = Inr s"
| "ProcessImportFrom_aliases E m obj ((x, as_name) # rest) vt s =
     (if \<not> HasAttribute E obj x
      then Inl (AstError (''cannot import name '' @ quoted x @ '' from '' @ quoted m))
      else (case GetAttribute E obj x s of
              Inl e \<Rightarrow> Inl e
            | Inr (attr, s1) \<Rightarrow>
                ProcessImportFrom_aliases E m obj rest vt
                  (table_add vt (AsNameFromAlias x as_name) attr s1)))"

definition ProcessImportFrom :: "env \<Rightarrow> nat \<Rightarrow> string \<Rightarrow> import_names \<Rightarrow> nat \<Rightarrow> state
    \<Rightarrow> error + state" where
  "ProcessImportFrom E level m names vt s =
     (if level \<noteq> 0
      then Inl (Unimplemented (''Unexpected import level '' @ string_of_nat level @ '', expected 0''))
      else (case map_of (module_handler s) m of
        None \<Rightarrow> Inl (AstError (''ModuleNotFoundError: No module named '' @ quoted m))
      | Some obj \<Rightarrow>
          (case names of
             AliasTuple aliases \<Rightarrow> ProcessImportFrom_aliases E m obj aliases vt s
           | Alias x as_name \<Rightarrow> ProcessImportFrom_aliases E m obj [(x, as_name)] vt s
           | OtherNames t \<Rightarrow>
               Inl (AstError (''Unexpected type in import statement '' @ quoted t)))))"

subsection \<open>Assignments\<close>

text \<open>
  Modelled from the spec: \<^verbatim>\<open>Dataframe::FromColumnAssignment\<close> is missing from the
  sources. It makes a new Dataframe over a map on the operator of the parent that adds
  (or replaces) the column named as the target column, with the expression as its value,
  and keeps the input columns.
\<close>

definition FromColumnAssignment :: "nat option \<Rightarrow> nat \<Rightarrow> nat \<Rightarrow> state \<Rightarrow> error + qlobject \<times> state" where
  "FromColumnAssignment parent_op column ex s =
     (let (i, s1) = graph_create (MapIR parent_op [(col_name (ir_graph s) column, ex)] True) s
      in Inr (Dataframe (Some i), s1))"

definition graph_delete :: "nat \<Rightarrow> state \<Rightarrow> error + state" where
  "graph_delete i s =
     (case DeleteNode i (ir_graph s) of Inl e \<Rightarrow> Inl e | Inr g \<Rightarrow> Inr (s\<lparr>ir_graph := g\<rparr>))"

definition ProcessMapAssignment :: "process \<Rightarrow> expr \<Rightarrow> nat option \<Rightarrow> qlobject \<Rightarrow> expr \<Rightarrow> nat
    \<Rightarrow> state \<Rightarrow> error + state" where
  "ProcessMapAssignment P assign_target parent_df_op target_node expr_node vt s =
     (case assign_target of
        Name assign_name_string \<Rightarrow>
     (case GetArgAs_ColumnIR s target_node ''assignment value'' of
        Inl e \<Rightarrow> Inl e
      | Inr target_column \<Rightarrow>
     (case parent_df_op of
        None \<Rightarrow> Inl (AstError ''Cannot assign column to dataframe that does not contain an operator'')
      | Some parent_op \<Rightarrow>
     (case P expr_node \<lparr>parent_ops = [parent_op], operator_name = kMapOpId,
                        referenceable_dataframes = [assign_name_string]\<rparr> vt s of
        Inl e \<Rightarrow> Inl e
      | Inr (expr_obj, s1) \<Rightarrow>
     (case GetArgAs_ExpressionIR s1 expr_obj ''assignment value'' of
        Inl e \<Rightarrow> Inl e
      | Inr expr_val \<Rightarrow>
     (case FromColumnAssignment parent_df_op target_column expr_val s1 of
        Inl e \<Rightarrow> Inl e
      | Inr (dataframe, s2) \<Rightarrow>
          graph_delete target_column (table_add vt assign_name_string dataframe s2))))))
      | _ \<Rightarrow> Inl (AstError (''Can only assign to Dataframe by subscript from Name, received ''
                 @ GetAstTypeName assign_target)))"

definition ProcessSubscriptAssignment :: "process \<Rightarrow> expr \<Rightarrow> slice \<Rightarrow> expr \<Rightarrow> nat
    \<Rightarrow> state \<Rightarrow> error + state" where
  "ProcessSubscriptAssignment P v sl expr_node vt s =
     (case P (Subscript v sl) no_context vt s of
        Inl e \<Rightarrow> Inl e
      | Inr (processed_node, s1) \<Rightarrow>
     (case P v no_context vt s1 of
        Inl e \<Rightarrow> Inl e
      | Inr (processed_target_table, s2) \<Rightarrow>
     (case processed_target_table of
        Dataframe parent_df_op \<Rightarrow>
          ProcessMapAssignment P v parent_df_op processed_node expr_node vt s2
      | _ \<Rightarrow> Inl (AstError (''Can't assign to node via subscript of type ''
                 @ obj_name processed_target_table)))))"

text \<open>
  \<^verbatim>\<open>PYPA_PTR_CAST(Call, expr_node)\<close> is a pointer cast: the node it gives to
  \<^verbatim>\<open>Process\<close> is \<open>expr_node\<close> itself, and \<^verbatim>\<open>Process\<close> switches on the kind the
  node has.
\<close>

definition ProcessAttributeAssignment :: "env \<Rightarrow> process \<Rightarrow> expr \<Rightarrow> expr \<Rightarrow> expr \<Rightarrow> nat
    \<Rightarrow> state \<Rightarrow> error + state" where
  "ProcessAttributeAssignment E P v attribute expr_node vt s =
     (case P v no_context vt s of
        Inl e \<Rightarrow> Inl e
      | Inr (processed_target, s1) \<Rightarrow>
     (case processed_target of
        Dataframe parent_df_op \<Rightarrow>
          (case P (Attribute v attribute) no_context vt s1 of
             Inl e \<Rightarrow> Inl e
           | Inr (processed_node, s2) \<Rightarrow>
               ProcessMapAssignment P v parent_df_op processed_node expr_node vt s2)
      | _ \<Rightarrow>
     (case GetAttributeStr attribute of
        Inl e \<Rightarrow> Inl e
      | Inr attr_name \<Rightarrow>
     (case P expr_node no_context vt s1 of
        Inl e \<Rightarrow> Inl e
      | Inr (processed_value, s2) \<Rightarrow>
          AssignAttribute E processed_target attr_name processed_value s2))))"

definition ProcessAssignNode :: "env \<Rightarrow> process \<Rightarrow> expr list \<Rightarrow> expr \<Rightarrow> nat \<Rightarrow> state
    \<Rightarrow> error + state" where
  "ProcessAssignNode E P targets val vt s =
     (if length targets \<noteq> 1 then Inl (AstError ''We only support single target assignment.'')
      else (case targets ! 0 of
              Subscript v sl \<Rightarrow> ProcessSubscriptAssignment P v sl val vt s
            | Attribute v a \<Rightarrow> ProcessAttributeAssignment E P v a val vt s
            | Name assign_name \<Rightarrow>
                (case P val no_context vt s of
                   Inl e \<Rightarrow> Inl e
                 | Inr (processed_node, s1) \<Rightarrow> Inr (table_add vt assign_name processed_node s1))
            | _ \<Rightarrow> Inl (AstError ''Assignment target must be a Name or Subscript'')))"

subsection \<open>Function definitions\<close>

fun ProcessFunctionDef_arguments :: "process \<Rightarrow> param list \<Rightarrow> string list \<Rightarrow> (string \<times> qlobject) list
    \<Rightarrow> nat \<Rightarrow> state \<Rightarrow> error + (string list \<times> (string \<times> qlobject) list) \<times> state" where
  "ProcessFunctionDef_arguments P [] parsed_arg_names arg_annotations_objs vt s =
     Inr ((parsed_arg_names, arg_annotations_objs), s)"
| "ProcessFunctionDef_arguments P (OtherParam t # rest) parsed_arg_names arg_annotations_objs vt s =
     Inl (AstError (''function parameter must be an argument, not a '' @ t))"
| "ProcessFunctionDef_arguments P (Arg a None # rest) parsed_arg_names arg_annotations_objs vt s =
     ProcessFunctionDef_arguments P rest (parsed_arg_names @ [a]) arg_annotations_objs vt s"
| "ProcessFunctionDef_arguments P (Arg a (Some annotation) # rest) parsed_arg_names arg_annotations_objs vt s =
     (case P annotation no_context vt s of
        Inl e \<Rightarrow> Inl e
      | Inr (annotation_obj, s1) \<Rightarrow>
          ProcessFunctionDef_arguments P rest (parsed_arg_names @ [a])
            ((a, annotation_obj) # arg_annotations_objs) vt s1)"

fun ProcessFunctionDef_decorators :: "env \<Rightarrow> process \<Rightarrow> suite \<Rightarrow> expr list \<Rightarrow> qlobject \<Rightarrow> nat
    \<Rightarrow> state \<Rightarrow> error + qlobject \<times> state" where
  "ProcessFunctionDef_decorators E P S [] defined_func vt s = Inr (defined_func, s)"
| "ProcessFunctionDef_decorators E P S (d # rest) defined_func vt s =
     (case P d no_context vt s of
        Inl e \<Rightarrow> Inl e
      | Inr (dec_fn, s1) \<Rightarrow>
     (case GetCallMethod E dec_fn of
        Inl e \<Rightarrow> Inl e
      | Inr fn_object \<Rightarrow>
     (case FuncObject_Call E S fn_object \<lparr>kwargs = [], args = [defined_func]\<rparr> s1 of
        Inl e \<Rightarrow> Inl e
      | Inr (object_fn, s2) \<Rightarrow>
     (case GetCallMethod E object_fn of
        Inl e \<Rightarrow> Inl e
      | Inr defined_func' \<Rightarrow> ProcessFunctionDef_decorators E P S rest defined_func' vt s2))))"

definition ProcessDocString :: "string \<Rightarrow> state \<Rightarrow> error + qlobject \<times> state" where
  "ProcessDocString doc s = (let (i, s1) = graph_create (StringIR doc) s in Inr (ExprObject i, s1))"

definition ProcessFuncDefDocString :: "stmt list \<Rightarrow> state \<Rightarrow> error + qlobject \<times> state" where
  "ProcessFuncDefDocString items_list s =
     (case items_list of
        DocString doc # rest \<Rightarrow> ProcessDocString doc s
      | _ \<Rightarrow> (let (i, s1) = graph_create (StringIR []) s in Inr (ExprObject i, s1)))"

text \<open>
  Modelled from the spec: \<^verbatim>\<open>ResolveArgAnnotationsToTypes\<close> is missing from the
  sources. It keeps, for every annotation that is a Type object, the data type of the
  parameter. The doc string that \<^verbatim>\<open>AddDocString\<close> attaches is not kept in the
  embedding of a function object.
\<close>

fun annotation_types :: "(string \<times> qlobject) list \<Rightarrow> (string \<times> data_type) list" where
  "annotation_types [] = []"
| "annotation_types ((a, TypeObject t) # rest) = (a, t) # annotation_types rest"
| "annotation_types ((a, obj) # rest) = annotation_types rest"

fun ResolveArgAnnotationsToTypes :: "(string \<times> qlobject) list \<Rightarrow> qlobject \<Rightarrow> qlobject" where
  "ResolveArgAnnotationsToTypes arg_annotation_objs (FuncObject fname ps ts impl) =
     FuncObject fname ps (annotation_types arg_annotation_objs @ ts) impl"
| "ResolveArgAnnotationsToTypes arg_annotation_objs obj = obj"

definition ProcessFunctionDefNode :: "env \<Rightarrow> process \<Rightarrow> suite \<Rightarrow> expr \<Rightarrow> param list \<Rightarrow> nat
    \<Rightarrow> expr option list \<Rightarrow> expr option \<Rightarrow> expr option \<Rightarrow> body \<Rightarrow> expr list \<Rightarrow> nat \<Rightarrow> state
    \<Rightarrow> error + state" where
  "ProcessFunctionDefNode E P S function_name_node arguments n_keywords defaults var_args kw_args
      fbody decorators vt s =
     (case ProcessFunctionDef_arguments P arguments [] [] vt s of
        Inl e \<Rightarrow> Inl e
      | Inr ((parsed_arg_names, arg_annotations_objs), s1) \<Rightarrow>
     (if dchecks E \<and> n_keywords \<noteq> 0 then Inl (CheckFailed ''node->args.keywords.size() == 0'')
      else if dchecks E \<and> length defaults \<noteq> length arguments
        then Inl (CheckFailed ''node->args.defaults.size() == node->args.arguments.size()'')
      else if list_ex (\<lambda>d. d \<noteq> None) defaults
        then Inl (AstError ''default values not supported in function definitions'')
      else if var_args \<noteq> None
        then Inl (AstError ''variable length args are not supported in function definitions'')
      else if kw_args \<noteq> None
        then Inl (AstError ''variable length kwargs are not supported in function definitions'')
      else (case function_name_node of
        Name function_name \<Rightarrow>
     (case fbody of
        OtherBody t \<Rightarrow> Inl (AstError (''function body of type '' @ t @ '' not allowed''))
      | Suite items_list \<Rightarrow>
     (if dchecks E \<and> 1 < length decorators then Inl (CheckFailed ''node->decorators.size() <= 1'')
      else
     (case ProcessFunctionDef_decorators E P S decorators
             (FuncObject function_name parsed_arg_names []
                (UserDefined vt parsed_arg_names arg_annotations_objs items_list)) vt s1 of
        Inl e \<Rightarrow> Inl e
      | Inr (defined_func, s2) \<Rightarrow>
     (case ProcessFuncDefDocString items_list s2 of
        Inl e \<Rightarrow> Inl e
      | Inr (doc_string, s3) \<Rightarrow>
          Inr (table_add vt function_name
                 (ResolveArgAnnotationsToTypes arg_annotations_objs defined_func) s3)))))
      | _ \<Rightarrow> Inl (AstError (''function definition must be a name, not a ''
                 @ GetAstTypeName function_name_node)))))"

subsection \<open>Suites\<close>

definition ProcessExprStmtNode :: "process \<Rightarrow> expr \<Rightarrow> nat \<Rightarrow> state \<Rightarrow> error + state" where
  "ProcessExprStmtNode P e vt s =
     (case P e no_context vt s of Inl err \<Rightarrow> Inl err | Inr (obj, s1) \<Rightarrow> Inr s1)"

definition ProcessFuncDefReturn :: "process \<Rightarrow> expr option \<Rightarrow> nat \<Rightarrow> state \<Rightarrow> error + qlobject \<times> state" where
  "ProcessFuncDefReturn P ret vt s =
     (case ret of None \<Rightarrow> Inr (NoneObject, s) | Some v \<Rightarrow> P v no_context vt s)"

fun ProcessASTSuite_items :: "env \<Rightarrow> process \<Rightarrow> suite \<Rightarrow> stmt list \<Rightarrow> bool \<Rightarrow> nat \<Rightarrow> state
    \<Rightarrow> error + qlobject \<times> state" where
  "ProcessASTSuite_items E P S [] is_function_definition_body vt s = Inr (NoneObject, s)"
| "ProcessASTSuite_items E P S (Import x as_name # rest) is_function_definition_body vt s =
     (case ProcessImport x as_name vt s of
        Inl e \<Rightarrow> Inl e
      | Inr s1 \<Rightarrow> ProcessASTSuite_items E P S rest is_function_definition_body vt s1)"
| "ProcessASTSuite_items E P S (ImportFrom level m names # rest) is_function_definition_body vt s =
     (case ProcessImportFrom E level m names vt s of
        Inl e \<Rightarrow> Inl e
      | Inr s1 \<Rightarrow> ProcessASTSuite_items E P S rest is_function_definition_body vt s1)"
| "ProcessASTSuite_items E P S (ExpressionStatement e # rest) is_function_definition_body vt s =
     (case ProcessExprStmtNode P e vt s of
        Inl err \<Rightarrow> Inl err
      | Inr s1 \<Rightarrow> ProcessASTSuite_items E P S rest is_function_definition_body vt s1)"
| "ProcessASTSuite_items E P S (Assign targets val # rest) is_function_definition_body vt s =
     (case ProcessAssignNode E P targets val vt s of
        Inl e \<Rightarrow> Inl e
      | Inr s1 \<Rightarrow> ProcessASTSuite_items E P S rest is_function_definition_body vt s1)"
| "ProcessASTSuite_items E P S (FunctionDef fname arguments n_keywords defaults var_args kw_args fbody
      decorators # rest) is_function_definition_body vt s =
     (case ProcessFunctionDefNode E P S fname arguments n_keywords defaults var_args kw_args fbody
             decorators vt s of
        Inl e \<Rightarrow> Inl e
      | Inr s1 \<Rightarrow> ProcessASTSuite_items E P S rest is_function_definition_body vt s1)"
| "ProcessASTSuite_items E P S (DocString doc # rest) is_function_definition_body vt s =
     Inl (AstError ''Doc strings are only allowed at the start of a module or function.'')"
| "ProcessASTSuite_items E P S (Return ret # rest) is_function_definition_body vt s =
     (if \<not> is_function_definition_body then Inl (AstError (quoted ''return'' @ '' outside function''))
      else ProcessFuncDefReturn P ret vt s)"
| "ProcessASTSuite_items E P S (OtherStmt t # rest) is_function_definition_body vt s =
     Inl (AstError (''Can't parse expression of type '' @ t))"

definition ProcessASTSuite_body :: "env \<Rightarrow> process \<Rightarrow> suite \<Rightarrow> stmt list \<Rightarrow> bool \<Rightarrow> nat \<Rightarrow> state
    \<Rightarrow> error + qlobject \<times> state" where
  "ProcessASTSuite_body E P S items_list is_function_definition_body vt s =
     (if length items_list = 0 then Inl (AstError ''No runnable code found'')
      else (case items_list of
        DocString doc # rest \<Rightarrow>
          (if \<not> is_function_definition_body then
             (case ProcessDocString doc s of
                Inl e \<Rightarrow> Inl e
              | Inr (doc_string, s1) \<Rightarrow>
                  ProcessASTSuite_items E P S rest is_function_definition_body vt
                    (table_add vt ''__doc__'' doc_string s1))
           else ProcessASTSuite_items E P S rest is_function_definition_body vt s)
      | _ \<Rightarrow>
          (if \<not> is_function_definition_body then
             (let (ir_node, s1) = graph_create (StringIR []) s
              in ProcessASTSuite_items E P S items_list is_function_definition_body vt
                   (table_add vt ''__doc__'' (ExprObject ir_node) s1))
           else ProcessASTSuite_items E P S items_list is_function_definition_body vt s)))"

subsection \<open>The evaluator\<close>

text \<open>
  \<^verbatim>\<open>Process\<close> and \<^verbatim>\<open>ProcessASTSuite\<close> call each other through the calls of the
  functions that the script defines, and a function of the script may call itself, so an
  evaluation need not end. The fuel bounds the nesting of expressions and calls;
  \<open>OutOfFuel\<close> is the result of an evaluation that needs more.
\<close>

fun Process :: "env \<Rightarrow> nat \<Rightarrow> process"
  and ProcessFuncBody :: "env \<Rightarrow> nat \<Rightarrow> suite" where
  "Process E 0 node ctx vt s = Inl OutOfFuel"
| "Process E (Suc n) node ctx vt s =
     Process_node E (Process E n) (ProcessFuncBody E n) node ctx vt s"
| "ProcessFuncBody E 0 items_list is_function_definition_body vt s = Inl OutOfFuel"
| "ProcessFuncBody E (Suc n) items_list is_function_definition_body vt s =
     ProcessASTSuite_body E (Process E n) (ProcessFuncBody E n) items_list
       is_function_definition_body vt s"

definition ProcessASTSuite :: "env \<Rightarrow> nat \<Rightarrow> suite" where
  "ProcessASTSuite E fuel items_list is_function_definition_body vt s =
     ProcessASTSuite_body E (Process E fuel) (ProcessFuncBody E fuel) items_list
       is_function_definition_body vt s"

definition ProcessModuleNode :: "env \<Rightarrow> nat \<Rightarrow> stmt list \<Rightarrow> nat \<Rightarrow> state \<Rightarrow> error + state" where
  "ProcessModuleNode E fuel items_list vt s =
     (case ProcessASTSuite E fuel items_list False vt s of
        Inl e \<Rightarrow> Inl e
      | Inr (obj, s1) \<Rightarrow> Inr s1)"

subsection \<open>Functions to execute\<close>

record func_to_execute =
  func_name :: string
  output_table_prefix :: string
  arg_values :: "(string \<times> string) list"

definition ParseStringAsType :: "env \<Rightarrow> string \<Rightarrow> data_type \<Rightarrow> state \<Rightarrow> error + qlobject \<times> state" where
  "ParseStringAsType E v t s =
     (case t of
        BOOLEAN \<Rightarrow>
          (case SimpleAtob E v of
             None \<Rightarrow> Inl (AstError (''Failed to parse arg with value '' @ quoted v @ '' as bool.''))
           | Some b \<Rightarrow> (let (i, s1) = graph_create (BoolIR b) s in Inr (ExprObject i, s1)))
      | STRING \<Rightarrow> (let (i, s1) = graph_create (StringIR v) s in Inr (ExprObject i, s1))
      | INT64 \<Rightarrow>
          (case SimpleAtoi E v of
             None \<Rightarrow> Inl (AstError (''Failed to parse arg with value '' @ quoted v @ '' as int64.''))
           | Some n \<Rightarrow> (let (i, s1) = graph_create (IntIR n) s in Inr (ExprObject i, s1)))
      | FLOAT64 \<Rightarrow>
          (case SimpleAtod E v of
             None \<Rightarrow> Inl (AstError (''Failed to parse arg with value '' @ quoted v @ '' as float64.''))
           | Some d \<Rightarrow> (let (i, s1) = graph_create (FloatIR d) s in Inr (ExprObject i, s1)))
      | DURATION64NS \<Rightarrow>
          (case SimpleAtoi E v of
             None \<Rightarrow> Inl (AstError (''Failed to parse arg with value '' @ quoted v @ '' as time.''))
           | Some n \<Rightarrow> (let (i, s1) = graph_create (TimeIR n) s in Inr (ExprObject i, s1)))
      | TIME64NS \<Rightarrow>
          (case SimpleAtoi E v of
             None \<Rightarrow> Inl (AstError (''Failed to parse arg with value '' @ quoted v @ '' as time.''))
           | Some n \<Rightarrow> (let (i, s1) = graph_create (TimeIR n) s in Inr (ExprObject i, s1)))
      | UINT128 \<Rightarrow> Inl (AstError ''Passing arg of type UINT128 is currently unsupported.'')
      | DATA_TYPE_UNKNOWN \<Rightarrow>
          Inl (AstError ''All arguments to executed functions must have an underlying concrete type.''))"

fun func_arguments :: "qlobject \<Rightarrow> string list" where
  "func_arguments (FuncObject fname ps ts impl) = ps"
| "func_arguments obj = []"

fun func_arg_types :: "qlobject \<Rightarrow> (string \<times> data_type) list" where
  "func_arg_types (FuncObject fname ps ts impl) = ts"
| "func_arg_types obj = []"

fun func_obj_name :: "qlobject \<Rightarrow> string" where
  "func_obj_name (FuncObject fname ps ts impl) = fname"
| "func_obj_name obj = []"

fun ProcessExecFuncArgs :: "env \<Rightarrow> qlobject \<Rightarrow> (string \<times> string) list \<Rightarrow> arg_map \<Rightarrow> state
    \<Rightarrow> error + arg_map \<times> state" where
  "ProcessExecFuncArgs E func [] am s = Inr (am, s)"
| "ProcessExecFuncArgs E func ((arg_name, arg_value) # rest) am s =
     (if arg_name \<notin> set (func_arguments func)
      then Inl (AstError (''Function '' @ quoted (func_obj_name func)
                  @ '' does not have an argument called '' @ quoted arg_name))
      else (case map_of (func_arg_types func) arg_name of
        None \<Rightarrow> Inl (AstError (''Arg type annotation required. Function: ''
                  @ quoted (func_obj_name func) @ '', arg: '' @ quoted arg_name))
      | Some t \<Rightarrow>
          (case ParseStringAsType E arg_value t s of
             Inl e \<Rightarrow> Inl e
           | Inr (node, s1) \<Rightarrow>
               ProcessExecFuncArgs E func rest (am\<lparr>kwargs := kwargs am @ [(arg_name, node)]\<rparr>) s1)))"

fun ProcessExecFuncs_returns :: "string \<Rightarrow> string \<Rightarrow> nat \<Rightarrow> qlobject list \<Rightarrow> state \<Rightarrow> error + state" where
  "ProcessExecFuncs_returns fname prefix i [] s = Inr s"
| "ProcessExecFuncs_returns fname prefix i (obj # rest) s =
     (case obj of
        Dataframe df_op \<Rightarrow>
          (let out_name = prefix @ ''['' @ string_of_nat i @ '']'';
               (sink, s1) = graph_create (MemorySinkIR df_op out_name []) s
           in ProcessExecFuncs_returns fname prefix (Suc i) rest s1)
      | _ \<Rightarrow> Inl (AstError (''Function '' @ quoted fname @ '' returns '' @ quoted (obj_name obj)
                 @ '' at index '' @ string_of_nat i @ ''. All returned objects must be dataframes.'')))"

fun ProcessExecFuncs :: "env \<Rightarrow> suite \<Rightarrow> func_to_execute list \<Rightarrow> nat \<Rightarrow> state \<Rightarrow> error + state" where
  "ProcessExecFuncs E S [] vt s = Inr s"
| "ProcessExecFuncs E S (func # rest) vt s =
     (if func_name func = [] then Inl (AstError ''Must specify func_name for each FuncToExecute.'')
      else if output_table_prefix func = []
        then Inl (AstError (''Output_table_prefix must be specified for function ''
                    @ func_name func @ ''.''))
      else (case table_lookup s vt (func_name func) of
        None \<Rightarrow> Inl (AstError (''Function to execute, '' @ quoted (func_name func) @ '', not found.''))
      | Some objptr \<Rightarrow>
     (if type_of objptr \<noteq> kFunction
      then Inl (AstError (quoted (func_name func) @ '' is a '' @ quoted (obj_name objptr)
                  @ '' not a function.''))
      else
     (case ProcessExecFuncArgs E objptr (arg_values func) \<lparr>kwargs = [], args = []\<rparr> s of
        Inl e \<Rightarrow> Inl e
      | Inr (argmap, s1) \<Rightarrow>
     (case FuncObject_Call E S objptr argmap s1 of
        Inl e \<Rightarrow> Inl e
      | Inr (return_obj, s2) \<Rightarrow>
     (if \<not> IsCollection return_obj then
        (case return_obj of
           Dataframe df_op \<Rightarrow>
             (let (sink, s3) = graph_create (MemorySinkIR df_op (output_table_prefix func) []) s2
              in ProcessExecFuncs E S rest vt s3)
         | _ \<Rightarrow> Inl (AstError (''Function '' @ quoted (func_name func) @ '' returns ''
                    @ quoted (obj_name return_obj) @ '' but should return a DataFrame.'')))
      else
        (case ProcessExecFuncs_returns (func_name func) (output_table_prefix func) 0
                (items return_obj) s2 of
           Inl e \<Rightarrow> Inl e
         | Inr s3 \<Rightarrow> ProcessExecFuncs E S rest vt s3)))))))"

section \<open>An environment to evaluate in\<close>

text \<open>
  The unary operators are those of the language (\<open>+\<close>, \<open>-\<close>, \<open>not\<close>, \<open>~\<close>), with \<open>+\<close>
  the no-op; the parsers read a few literals; a Dataframe is subscripted by the native
  function \<open>subscript\<close>, which makes a column node; the native \<open>make_df\<close> gives the
  Dataframe over node 0, \<open>make_dfs\<close> a list of two; an attribute can be assigned on a
  module, which the module handler then holds under its name.
\<close>

definition example_subscript :: "(string \<times> qlobject) list \<Rightarrow> state \<Rightarrow> error + qlobject \<times> state" where
  "example_subscript parsed s =
     (case map_of parsed ''key'' of
        Some (ExprObject k) \<Rightarrow>
          (case map_of (nodes (ir_graph s)) k of
             Some (StringIR c) \<Rightarrow> (let (i, s1) = graph_create (ColumnIR c) s in Inr (ExprObject i, s1))
           | _ \<Rightarrow> Inl (ObjectError ''subscript must be a string''))
      | _ \<Rightarrow> Inl (ObjectError ''subscript must be a string''))"

definition example_native :: "string \<Rightarrow> (string \<times> qlobject) list \<Rightarrow> state \<Rightarrow> error + qlobject \<times> state" where
  "example_native f parsed s =
     (if f = ''subscript'' then example_subscript parsed s
      else if f = ''make_df'' then Inr (Dataframe (Some 0), s)
      else if f = ''make_dfs'' then Inr (ListObject [Dataframe (Some 0), Dataframe (Some 0)], s)
      else Inl (ObjectError ''no such native function''))"

definition example_env :: env where
  "example_env =
     \<lparr>op_map = [(''+'', \<lparr>op_code = opc ''add'', python_op = ''+'', carnot_op_name = ''add''\<rparr>),
                (''<'', \<lparr>op_code = opc ''lt'', python_op = ''<'', carnot_op_name = ''lessThan''\<rparr>)],
      unary_op_map = [(''+'', \<lparr>op_code = non_op, python_op = ''+'', carnot_op_name = []\<rparr>),
                      (''-'', \<lparr>op_code = opc ''negate'', python_op = ''-'', carnot_op_name = ''negate''\<rparr>),
                      (''not'', \<lparr>op_code = opc ''lognot'', python_op = ''not'', carnot_op_name = ''logicalNot''\<rparr>),
                      (''~'', \<lparr>op_code = opc ''invert'', python_op = ''~'', carnot_op_name = ''invert''\<rparr>)],
      dchecks = False,
      SimpleAtob = (\<lambda>v. if v = ''true'' then Some True else if v = ''false'' then Some False else None),
      SimpleAtoi = (\<lambda>v. if v = ''0'' then Some 0 else if v = ''1'' then Some 1 else None),
      SimpleAtod = (\<lambda>v. if v = ''0.5'' then Some (1 / 2) else None),
      HasAttribute = (\<lambda>obj a. False),
      GetAttribute = (\<lambda>obj a s. Inl (ObjectError ''no such attribute'')),
      GetSubscriptMethod = (\<lambda>obj. case obj of
          Dataframe p \<Rightarrow> Some (FuncObject ''subscript'' [''key''] [] (Native ''subscript''))
        | _ \<Rightarrow> None),
      call_attribute = (\<lambda>obj. None),
      NodeMatches = (\<lambda>t n. case (t, n) of
          (INT64, Some (IntIR i)) \<Rightarrow> Inr ()
        | (STRING, Some (StringIR c)) \<Rightarrow> Inr ()
        | (BOOLEAN, Some (BoolIR b)) \<Rightarrow> Inr ()
        | _ \<Rightarrow> Inl (ObjectError ''Expected another type'')),
      AssignAttribute = (\<lambda>obj a v s. case obj of
          Module m attrs \<Rightarrow> Inr (s\<lparr>module_handler := (m, Module m ((a, v) # attrs)) # module_handler s\<rparr>)
        | _ \<Rightarrow> Inl (ObjectError ''cannot assign attribute'')),
      native_call = example_native,
      PixieModule_Create = (\<lambda>s. Inr (Module ''px'' [], s)),
      Module_Create = (\<lambda>text s. Inr (Module text [], s))\<rparr>"

definition debug_env :: env where
  "debug_env = example_env\<lparr>dchecks := True\<rparr>"

definition empty_ir :: ir where
  "empty_ir = \<lparr>nodes = [], next_id = 0\<rparr>"

section \<open>Notions of the specification\<close>

text \<open>
  The literal that the specification coerces a string value to, by the data type of the
  annotation: a bool word, a decimal integer, a decimal float, the string itself, integer
  nanoseconds for a time or a duration, and nothing for a \<open>UINT128\<close>.
\<close>

definition coerce :: "env \<Rightarrow> data_type \<Rightarrow> string \<Rightarrow> ir_node option" where
  "coerce E t v =
     (case t of
        BOOLEAN \<Rightarrow> map_option BoolIR (SimpleAtob E v)
      | INT64 \<Rightarrow> map_option IntIR (SimpleAtoi E v)
      | FLOAT64 \<Rightarrow> map_option FloatIR (SimpleAtod E v)
      | STRING \<Rightarrow> Some (StringIR v)
      | TIME64NS \<Rightarrow> map_option TimeIR (SimpleAtoi E v)
      | DURATION64NS \<Rightarrow> map_option TimeIR (SimpleAtoi E v)
      | UINT128 \<Rightarrow> None
      | DATA_TYPE_UNKNOWN \<Rightarrow> None)"

text \<open>
  An argument descriptor (name, value) is acceptable for a function when the name is a
  declared parameter, the parameter has an annotated type, and the value can be coerced
  to that type.
\<close>

definition arg_ok :: "env \<Rightarrow> qlobject \<Rightarrow> string \<times> string \<Rightarrow> bool" where
  "arg_ok E f av =
     (fst av \<in> set (func_arguments f) \<and>
      (case map_of (func_arg_types f) (fst av) of
         None \<Rightarrow> False
       | Some t \<Rightarrow> coerce E t (snd av) \<noteq> None))"

text \<open>
  A keyword argument passes a descriptor when it has the descriptor's name and its value
  is an Expr over a node of the graph that is the coerced literal.
\<close>

definition passed :: "env \<Rightarrow> qlobject \<Rightarrow> state \<Rightarrow> string \<times> string \<Rightarrow> string \<times> qlobject \<Rightarrow> bool" where
  "passed E f s av kw =
     (fst kw = fst av \<and>
      (case (map_of (func_arg_types f) (fst av), snd kw) of
         (Some t, ExprObject i) \<Rightarrow>
           (case coerce E t (snd av) of None \<Rightarrow> False | Some n \<Rightarrow> (i, n) \<in> set (nodes (ir_graph s)))
       | _ \<Rightarrow> False))"

definition example_func :: qlobject where
  "example_func = FuncObject ''f'' [''x'', ''y''] [(''x'', INT64)] (Native ''make_df'')"

text \<open>
  The name of the sink of the element at index \<open>i\<close> of a returned collection, and the
  sink nodes for a list of returned Dataframes: one for each element, in order, each
  with the next id of the graph.
\<close>

definition sink_name :: "string \<Rightarrow> nat \<Rightarrow> string" where
  "sink_name prefix i = prefix @ ''['' @ string_of_nat i @ '']''"

fun df_op :: "qlobject \<Rightarrow> nat option" where
  "df_op (Dataframe p) = p"
| "df_op obj = None"

definition is_dataframe :: "qlobject \<Rightarrow> bool" where
  "is_dataframe obj = (type_of obj = kDataframe)"

fun sink_nodes :: "string \<Rightarrow> nat \<Rightarrow> nat \<Rightarrow> qlobject list \<Rightarrow> (nat \<times> ir_node) list" where
  "sink_nodes prefix b i [] = []"
| "sink_nodes prefix b i (obj # rest) =
     (b, MemorySinkIR (df_op obj) (sink_name prefix i) []) # sink_nodes prefix (Suc b) (Suc i) rest"

text \<open>The state whose graph has the nodes \<open>ns\<close> more, and nothing else changed.\<close>

definition add_nodes :: "(nat \<times> ir_node) list \<Rightarrow> state \<Rightarrow> state" where
  "add_nodes ns s =
     s\<lparr>ir_graph := (ir_graph s)\<lparr>nodes := nodes (ir_graph s) @ ns,
                                  next_id := next_id (ir_graph s) + length ns\<rparr>\<rparr>"

text \<open>
  A state to evaluate in: the graph has one operator, node 0; the root table binds \<open>f\<close>
  and \<open>g\<close> to native functions that return the Dataframe over node 0 and a list of two
  such Dataframes, \<open>df\<close> to that Dataframe, and \<open>px\<close> to a module.
\<close>

definition example_state :: state where
  "example_state =
     \<lparr>ir_graph = \<lparr>nodes = [(0, OtherIR ''MemorySource'' [])], next_id = Suc 0\<rparr>,
      var_tables = [\<lparr>bindings = [(''f'', FuncObject ''f'' [] [] (Native ''make_df'')),
                                  (''g'', FuncObject ''g'' [] [] (Native ''make_dfs'')),
                                  (''df'', Dataframe (Some 0)),
                                  (''px'', Module ''px'' [])],
                      parent = None\<rparr>],
      module_handler = []\<rparr>"

text \<open>
  The ids of a graph are below its next id; a later graph extends an earlier one when
  its next id is not smaller and each of its ids is an id of the earlier graph or one
  given since. A node deleted from a graph whose ids are below the next id is then in no
  later graph. The methods of the objects and the native functions are not in the
  sources: an environment is well behaved when theirs only extend the graph.
\<close>

definition wf_ir :: "ir \<Rightarrow> bool" where
  "wf_ir g = (ids g \<subseteq> {..< next_id g})"

definition graph_ext :: "ir \<Rightarrow> ir \<Rightarrow> bool" where
  "graph_ext g g' = (next_id g \<le> next_id g' \<and> ids g' \<subseteq> ids g \<union> {next_id g ..< next_id g'})"

definition ext :: "state \<Rightarrow> state \<Rightarrow> bool" where
  "ext s s' = graph_ext (ir_graph s) (ir_graph s')"

definition well_behaved :: "env \<Rightarrow> bool" where
  "well_behaved E =
     ((\<forall>f parsed s r s'. native_call E f parsed s = Inr (r, s') \<longrightarrow> ext s s')
      \<and> (\<forall>obj a s r s'. GetAttribute E obj a s = Inr (r, s') \<longrightarrow> ext s s')
      \<and> (\<forall>obj a v s s'. AssignAttribute E obj a v s = Inr s' \<longrightarrow> ext s s'))"

definition process_ok :: "process \<Rightarrow> bool" where
  "process_ok P = (\<forall>e ctx vt s r s'. P e ctx vt s = Inr (r, s') \<longrightarrow> ext s s')"

definition suite_ok :: "suite \<Rightarrow> bool" where
  "suite_ok S = (\<forall>b f vt s r s'. S b f vt s = Inr (r, s') \<longrightarrow> ext s s')"

section \<open>Properties\<close>

subsection \<open>Suites\<close>

text \<open>
  C10. A suite with no statement is rejected with the error \<open>No runnable code found\<close>,
  whether it is the suite of a module or the body of a function definition, whatever the
  fuel, the visitor and the state.
\<close>

theorem ProcessASTSuite_no_runnable_code:
  "ProcessASTSuite E fuel [] False vt s = Inl (AstError ''No runnable code found'')
   \<and> ProcessASTSuite E fuel [] True vt s = Inl (AstError ''No runnable code found'')
   \<and> ProcessModuleNode E fuel [] vt s = Inl (AstError ''No runnable code found'')"
  by (simp add: ProcessModuleNode_def ProcessASTSuite_def ProcessASTSuite_body_def)

subsection \<open>Operator lookup\<close>

lemma GetOp_found:
  "map_of (op_map E) op_str = Some f \<Longrightarrow> GetOp E op_str = Inr f"
  by (simp add: GetOp_def find_op_def map_end_def)

lemma GetUnaryOp_found:
  "map_of (unary_op_map E) op_str = Some f \<Longrightarrow> GetUnaryOp E op_str = Inr f"
  by (simp add: GetUnaryOp_def find_op_def map_end_def)

text \<open>
  C6. For an operator that the table of the unary operators does not have,
  \<^verbatim>\<open>GetUnaryOp\<close> returns the error \<open>Unary Operator ... not handled\<close> and no opcode.
  So the evaluation of a unary operation with that operator never gives a value, and it
  gives that error whenever the operand evaluates to an expression.
\<close>

theorem GetUnaryOp_not_handled:
  assumes "map_of (unary_op_map E) op_str = None"
  shows "GetUnaryOp E op_str = Inl (AstError (''Unary Operator '' @ quoted op_str @ '' not handled''))
    \<and> (\<exists>e. Process E (Suc n) (UnaryOp op_str operand_node) ctx vt s = Inl e)
    \<and> (\<forall>i s1. Process E n operand_node ctx vt s = Inr (ExprObject i, s1) \<longrightarrow>
          Process E (Suc n) (UnaryOp op_str operand_node) ctx vt s =
            Inl (AstError (''Unary Operator '' @ quoted op_str @ '' not handled'')))"
proof -
  have g: "GetUnaryOp E op_str = Inl (AstError (''Unary Operator '' @ quoted op_str @ '' not handled''))"
    using assms by (simp add: GetUnaryOp_def find_op_def map_end_def quoted_def)
  have "\<exists>e. Process E (Suc n) (UnaryOp op_str operand_node) ctx vt s = Inl e"
    by (simp add: ProcessDataUnaryOp_def g split: sum.splits prod.splits)
  moreover have "\<forall>i s1. Process E n operand_node ctx vt s = Inr (ExprObject i, s1) \<longrightarrow>
          Process E (Suc n) (UnaryOp op_str operand_node) ctx vt s =
            Inl (AstError (''Unary Operator '' @ quoted op_str @ '' not handled''))"
    by (simp add: ProcessDataUnaryOp_def g GetArgAs_ExpressionIR_def)
  ultimately show ?thesis using g by blast
qed

theorem GetUnaryOp_not_handled_witness:
  "map_of (unary_op_map example_env) ''@'' = None
   \<and> GetUnaryOp example_env ''@'' = Inl (AstError ''Unary Operator '@' not handled'')
   \<and> Process example_env (Suc 0) (Number (Integer 1)) no_context 0 (new_visitor empty_ir []) =
       Inr (ExprObject 0, \<lparr>ir_graph = \<lparr>nodes = [(0, IntIR 1)], next_id = Suc 0\<rparr>,
              var_tables = [\<lparr>bindings = [], parent = None\<rparr>], module_handler = []\<rparr>)
   \<and> Process example_env (Suc (Suc 0)) (UnaryOp ''@'' (Number (Integer 1))) no_context 0
        (new_visitor empty_ir []) = Inl (AstError ''Unary Operator '@' not handled'')"
proof -
  have h: "map_of (unary_op_map example_env) ''@'' = None"
    by (simp add: example_env_def)
  have v: "Process example_env (Suc 0) (Number (Integer 1)) no_context 0 (new_visitor empty_ir []) =
       Inr (ExprObject 0, \<lparr>ir_graph = \<lparr>nodes = [(0, IntIR 1)], next_id = Suc 0\<rparr>,
              var_tables = [\<lparr>bindings = [], parent = None\<rparr>], module_handler = []\<rparr>)"
    by (simp add: graph_create_def CreateNode_def new_visitor_def empty_ir_def)
  show ?thesis
    using h v GetUnaryOp_not_handled [OF h, of "Suc 0" "Number (Integer 1)" no_context 0
        "new_visitor empty_ir []"]
    by (simp add: quoted_def)
qed

subsection \<open>Unary operations\<close>

text \<open>
  C5. When the operator of a unary operation maps to the opcode \<open>non_op\<close> and the
  operand evaluates to an Expr over node \<open>i\<close>, leaving the state \<open>s1\<close>, the operation
  evaluates to an Expr over the same node \<open>i\<close> and leaves the same state \<open>s1\<close>: the graph
  gets no node for the operation.
\<close>

theorem ProcessDataUnaryOp_non_op:
  assumes "GetUnaryOp E op_str = Inr f" and "op_code f = non_op"
    and "Process E n operand_node ctx vt s = Inr (ExprObject i, s1)"
  shows "ProcessDataUnaryOp E (Process E n) op_str operand_node ctx vt s = Inr (ExprObject i, s1)
    \<and> Process E (Suc n) (UnaryOp op_str operand_node) ctx vt s = Inr (ExprObject i, s1)"
  using assms by (simp add: ProcessDataUnaryOp_def GetArgAs_ExpressionIR_def)

theorem ProcessDataUnaryOp_non_op_witness:
  "GetUnaryOp example_env ''+'' = Inr \<lparr>op_code = non_op, python_op = ''+'', carnot_op_name = []\<rparr>
   \<and> Process example_env (Suc 0) (Number (Integer 1)) no_context 0 (new_visitor empty_ir []) =
       Inr (ExprObject 0, \<lparr>ir_graph = \<lparr>nodes = [(0, IntIR 1)], next_id = Suc 0\<rparr>,
              var_tables = [\<lparr>bindings = [], parent = None\<rparr>], module_handler = []\<rparr>)
   \<and> Process example_env (Suc (Suc 0)) (UnaryOp ''+'' (Number (Integer 1))) no_context 0
         (new_visitor empty_ir []) =
       Inr (ExprObject 0, \<lparr>ir_graph = \<lparr>nodes = [(0, IntIR 1)], next_id = Suc 0\<rparr>,
              var_tables = [\<lparr>bindings = [], parent = None\<rparr>], module_handler = []\<rparr>)"
proof -
  have h1: "GetUnaryOp example_env ''+'' = Inr \<lparr>op_code = non_op, python_op = ''+'', carnot_op_name = []\<rparr>"
    by (simp add: GetUnaryOp_def find_op_def map_end_def example_env_def)
  have h2: "op_code \<lparr>op_code = non_op, python_op = ''+'', carnot_op_name = []\<rparr> = non_op"
    by simp
  have h3: "Process example_env (Suc 0) (Number (Integer 1)) no_context 0 (new_visitor empty_ir []) =
       Inr (ExprObject 0, \<lparr>ir_graph = \<lparr>nodes = [(0, IntIR 1)], next_id = Suc 0\<rparr>,
              var_tables = [\<lparr>bindings = [], parent = None\<rparr>], module_handler = []\<rparr>)"
    by (simp add: graph_create_def CreateNode_def new_visitor_def empty_ir_def)
  show ?thesis using h1 h3 ProcessDataUnaryOp_non_op [OF h1 h2 h3] by simp
qed

subsection \<open>Comparisons\<close>

lemma ProcessDataCompare_release:
  assumes "\<not> dchecks E" and "operators \<noteq> []" and "length comparators \<noteq> 1"
  shows "Process E (Suc n) (Compare l operators comparators) ctx vt s =
           Inl (AstError (''Only expected one argument to the right of '' @ quoted (hd operators) @ ''.''))"
  using assms by (cases operators) (simp_all add: ProcessDataCompare_def)

text \<open>
  C8. The claim is that a comparison is rejected with an error unless it has exactly one
  operator and exactly one comparator. \<^verbatim>\<open>ProcessDataCompare\<close> has that error for the
  comparators, but asserts the number of operators before it: in a build that has the
  \<^verbatim>\<open>DCHECK\<close>, a comparison whose operator list does not have exactly one entry, as
  every chained comparison, stops at the failed assertion, which is no error status, and
  the error behind it is never returned.
\<close>

theorem ProcessDataCompare_dcheck_first:
  assumes "dchecks E" and "length operators \<noteq> 1"
  shows "Process E (Suc n) (Compare l operators comparators) ctx vt s =
           Inl (CheckFailed ''node->operators.size() == 1'')
    \<and> \<not> is_status (CheckFailed ''node->operators.size() == 1'')"
  using assms by (simp add: ProcessDataCompare_def)

theorem ProcessDataCompare_dcheck_first_witness:
  "dchecks debug_env \<and> length [''<'', ''<''] \<noteq> 1
   \<and> Process debug_env (Suc (Suc 0))
       (Compare (Number (Integer 1)) [''<'', ''<''] [Number (Integer 2), Number (Integer 3)])
       no_context 0 (new_visitor empty_ir []) = Inl (CheckFailed ''node->operators.size() == 1'')
   \<and> \<not> is_status (CheckFailed ''node->operators.size() == 1'')
   \<and> Process example_env (Suc (Suc 0))
       (Compare (Number (Integer 1)) [''<'', ''<''] [Number (Integer 2), Number (Integer 3)])
       no_context 0 (new_visitor empty_ir []) =
       Inl (AstError ''Only expected one argument to the right of '<'.'')"
proof -
  have h1: "dchecks debug_env" by (simp add: debug_env_def)
  have h2: "length [''<'', ''<''] \<noteq> 1" by simp
  have r: "Process example_env (Suc (Suc 0))
       (Compare (Number (Integer 1)) [''<'', ''<''] [Number (Integer 2), Number (Integer 3)])
       no_context 0 (new_visitor empty_ir []) =
       Inl (AstError ''Only expected one argument to the right of '<'.'')"
    by (simp add: ProcessDataCompare_def example_env_def quoted_def)
  show ?thesis
    using h1 h2 r ProcessDataCompare_dcheck_first [OF h1 h2, of "Suc 0" "Number (Integer 1)"
        "[Number (Integer 2), Number (Integer 3)]" no_context 0 "new_visitor empty_ir []"]
    by simp
qed

subsection \<open>A fresh visitor\<close>

lemma Lookup_root:
  "Lookup [\<lparr>bindings = bs, parent = None\<rparr>] 0 x = map_of bs x"
  by (subst Lookup.simps) (simp split: option.splits)

lemmas global_names = kStringTypeName_def kIntTypeName_def kFloatTypeName_def kBoolTypeName_def
  kNoneName_def kTrueName_def kFalseName_def

lemma InitGlobals_new_visitor:
  "InitGlobals 0 (new_visitor g h) =
     Inr \<lparr>ir_graph = \<lparr>nodes = nodes g @ [(next_id g, BoolIR True), (Suc (next_id g), BoolIR False)],
                       next_id = Suc (Suc (next_id g))\<rparr>,
          var_tables = [\<lparr>bindings = [(''False'', ExprObject (Suc (next_id g))),
                                      (''True'', ExprObject (next_id g)),
                                      (''None'', NoneObject),
                                      (''bool'', TypeObject BOOLEAN),
                                      (''float'', TypeObject FLOAT64),
                                      (''int'', TypeObject INT64),
                                      (''string'', TypeObject STRING)],
                          parent = None\<rparr>],
          module_handler = h\<rparr>"
  by (simp add: InitGlobals_def CreateBoolLiterals_def table_add_def Add_def graph_create_def
      CreateNode_def new_visitor_def global_names)

text \<open>
  C4. \<^verbatim>\<open>Create\<close> runs \<^verbatim>\<open>InitGlobals\<close> on the new visitor before anything else,
  and sets up the modules in the state that gives. \<^verbatim>\<open>InitGlobals\<close> succeeds, and in
  its state the root table binds \<open>bool\<close>, \<open>int\<close>, \<open>float\<close>
  and \<open>string\<close> to Type objects, \<open>None\<close> to the None object, and \<open>True\<close> and \<open>False\<close>
  to Expr objects whose nodes are in the graph and are the Bool literals.
\<close>

theorem InitGlobals_defines_globals:
  "\<exists>s true_ir false_ir.
     InitGlobals 0 (new_visitor g h) = Inr s
     \<and> Create E g h module_map = SetupModules E module_map s
     \<and> table_lookup s 0 ''bool'' = Some (TypeObject BOOLEAN)
     \<and> table_lookup s 0 ''int'' = Some (TypeObject INT64)
     \<and> table_lookup s 0 ''float'' = Some (TypeObject FLOAT64)
     \<and> table_lookup s 0 ''string'' = Some (TypeObject STRING)
     \<and> table_lookup s 0 ''None'' = Some NoneObject
     \<and> table_lookup s 0 ''True'' = Some (ExprObject true_ir)
     \<and> (true_ir, BoolIR True) \<in> set (nodes (ir_graph s))
     \<and> table_lookup s 0 ''False'' = Some (ExprObject false_ir)
     \<and> (false_ir, BoolIR False) \<in> set (nodes (ir_graph s))"
  by (simp add: Create_def InitGlobals_new_visitor table_lookup_def Lookup_root)

subsection \<open>Functions to execute: the arguments\<close>

lemma graph_create_nodes:
  "nodes (ir_graph (snd (graph_create n s))) = nodes (ir_graph s) @ [(next_id (ir_graph s), n)]"
  by (simp add: graph_create_def CreateNode_def)

lemma ParseStringAsType_coerce_None:
  "coerce E t v = None \<Longrightarrow> \<exists>m. ParseStringAsType E v t s = Inl (AstError m)"
  by (cases t) (auto simp add: coerce_def ParseStringAsType_def)

lemma ParseStringAsType_coerce_Some:
  "coerce E t v = Some n \<Longrightarrow>
   ParseStringAsType E v t s = Inr (ExprObject (next_id (ir_graph s)), snd (graph_create n s))"
  by (cases t) (auto simp add: coerce_def ParseStringAsType_def graph_create_def CreateNode_def)

lemma ParseStringAsType_Inr:
  "ParseStringAsType E v t s = Inr (obj, s1) \<Longrightarrow>
   \<exists>n. coerce E t v = Some n \<and> obj = ExprObject (next_id (ir_graph s)) \<and> s1 = snd (graph_create n s)"
  by (cases "coerce E t v")
     (auto dest: ParseStringAsType_coerce_None [where s = s] simp add: ParseStringAsType_coerce_Some)

lemma ProcessExecFuncArgs_nodes:
  "ProcessExecFuncArgs E f avs am s = Inr (am1, s1) \<Longrightarrow>
   set (nodes (ir_graph s)) \<subseteq> set (nodes (ir_graph s1))"
proof (induction avs arbitrary: am s)
  case Nil
  then show ?case by simp
next
  case (Cons av avs)
  obtain a v where av: "av = (a, v)" by (cases av)
  from Cons.prems obtain t obj s' where
    p: "ParseStringAsType E v t s = Inr (obj, s')" and
    r: "ProcessExecFuncArgs E f avs (am\<lparr>kwargs := kwargs am @ [(a, obj)]\<rparr>) s' = Inr (am1, s1)"
    by (auto simp add: av split: if_splits option.splits sum.splits)
  from ParseStringAsType_Inr [OF p] obtain n where "s' = snd (graph_create n s)" by blast
  then have "set (nodes (ir_graph s)) \<subseteq> set (nodes (ir_graph s'))"
    by (auto simp add: graph_create_nodes)
  with Cons.IH [OF r] show ?case by blast
qed

lemma ProcessExecFuncArgs_fails:
  "\<not> list_all (arg_ok E f) avs \<Longrightarrow> \<exists>m. ProcessExecFuncArgs E f avs am s = Inl (AstError m)"
proof (induction avs arbitrary: am s)
  case Nil
  then show ?case by simp
next
  case (Cons av avs)
  obtain a v where av: "av = (a, v)" by (cases av)
  show ?case
  proof (cases "arg_ok E f av")
    case False
    then show ?thesis
      by (auto simp add: av arg_ok_def split: option.splits
          dest: ParseStringAsType_coerce_None [where s = s])
  next
    case True
    with Cons.prems have rest: "\<not> list_all (arg_ok E f) avs" by simp
    from True obtain t n where "a \<in> set (func_arguments f)" "map_of (func_arg_types f) a = Some t"
      "coerce E t v = Some n"
      by (auto simp add: av arg_ok_def split: option.splits)
    then show ?thesis
      using Cons.IH [OF rest] by (simp add: av ParseStringAsType_coerce_Some)
  qed
qed

lemma passed_mono:
  "set (nodes (ir_graph s)) \<subseteq> set (nodes (ir_graph s1)) \<Longrightarrow> passed E f s av kw \<Longrightarrow> passed E f s1 av kw"
  by (auto simp add: passed_def split: option.splits qlobject.splits)

lemma ProcessExecFuncArgs_succeeds:
  "ProcessExecFuncArgs E f avs am s = Inr (am1, s1) \<Longrightarrow>
   args am1 = args am \<and>
   (\<exists>kws. kwargs am1 = kwargs am @ kws \<and> list_all2 (passed E f s1) avs kws)"
proof (induction avs arbitrary: am s)
  case Nil
  then show ?case by simp
next
  case (Cons av avs)
  obtain a v where av: "av = (a, v)" by (cases av)
  from Cons.prems obtain t obj s' where
    t: "map_of (func_arg_types f) a = Some t" and
    p: "ParseStringAsType E v t s = Inr (obj, s')" and
    r: "ProcessExecFuncArgs E f avs (am\<lparr>kwargs := kwargs am @ [(a, obj)]\<rparr>) s' = Inr (am1, s1)"
    by (auto simp add: av split: if_splits option.splits sum.splits)
  from ParseStringAsType_Inr [OF p] obtain n where
    n: "coerce E t v = Some n" "obj = ExprObject (next_id (ir_graph s))" "s' = snd (graph_create n s)"
    by blast
  have "passed E f s' av (a, obj)"
    by (simp add: passed_def av t n graph_create_nodes)
  then have here: "passed E f s1 av (a, obj)"
    using ProcessExecFuncArgs_nodes [OF r] passed_mono by blast
  from Cons.IH [OF r] obtain kws where
    "args am1 = args am" "kwargs am1 = kwargs am @ (a, obj) # kws" "list_all2 (passed E f s1) avs kws"
    by auto
  with here show ?case by auto
qed

text \<open>
  C3. \<^verbatim>\<open>ProcessExecFuncArgs\<close> fails with an error when one of the argument
  descriptors is not acceptable: its name is not a declared parameter of the function,
  or the parameter has no annotated type, or the value cannot be coerced to that type.
  When it succeeds it gives no positional argument and one keyword argument for each
  descriptor, in order, with the descriptor's name and an Expr over the coerced literal.
  A \<open>UINT128\<close> annotation is an error for every value.
\<close>

theorem ProcessExecFuncArgs_coerces:
  "(\<not> list_all (arg_ok E f) avs \<longrightarrow>
      (\<exists>m. ProcessExecFuncArgs E f avs \<lparr>kwargs = [], args = []\<rparr> s = Inl (AstError m)))
   \<and> (\<forall>am1 s1. ProcessExecFuncArgs E f avs \<lparr>kwargs = [], args = []\<rparr> s = Inr (am1, s1) \<longrightarrow>
          args am1 = [] \<and> list_all2 (passed E f s1) avs (kwargs am1))
   \<and> ParseStringAsType E v UINT128 s = Inl (AstError ''Passing arg of type UINT128 is currently unsupported.'')"
proof (intro conjI allI impI)
  assume "\<not> list_all (arg_ok E f) avs"
  then show "\<exists>m. ProcessExecFuncArgs E f avs \<lparr>kwargs = [], args = []\<rparr> s = Inl (AstError m)"
    by (rule ProcessExecFuncArgs_fails)
next
  fix am1 s1
  assume r: "ProcessExecFuncArgs E f avs \<lparr>kwargs = [], args = []\<rparr> s = Inr (am1, s1)"
  from ProcessExecFuncArgs_succeeds [OF r] show "args am1 = []" by simp
  from ProcessExecFuncArgs_succeeds [OF r] show "list_all2 (passed E f s1) avs (kwargs am1)" by auto
next
  show "ParseStringAsType E v UINT128 s = Inl (AstError ''Passing arg of type UINT128 is currently unsupported.'')"
    by (simp add: ParseStringAsType_def)
qed

theorem ProcessExecFuncArgs_coerces_witness:
  "\<not> list_all (arg_ok example_env example_func) [(''x'', ''not-a-number'')]
   \<and> (\<exists>m. ProcessExecFuncArgs example_env example_func [(''x'', ''not-a-number'')]
             \<lparr>kwargs = [], args = []\<rparr> (new_visitor empty_ir []) = Inl (AstError m))
   \<and> ProcessExecFuncArgs example_env example_func [(''x'', ''1'')] \<lparr>kwargs = [], args = []\<rparr>
        (new_visitor empty_ir []) =
       Inr (\<lparr>kwargs = [(''x'', ExprObject 0)], args = []\<rparr>,
            \<lparr>ir_graph = \<lparr>nodes = [(0, IntIR 1)], next_id = Suc 0\<rparr>,
             var_tables = [\<lparr>bindings = [], parent = None\<rparr>], module_handler = []\<rparr>)
   \<and> list_all2 (passed example_env example_func
          \<lparr>ir_graph = \<lparr>nodes = [(0, IntIR 1)], next_id = Suc 0\<rparr>,
           var_tables = [\<lparr>bindings = [], parent = None\<rparr>], module_handler = []\<rparr>)
        [(''x'', ''1'')] [(''x'', ExprObject 0)]"
proof -
  have h1: "\<not> list_all (arg_ok example_env example_func) [(''x'', ''not-a-number'')]"
    by (simp add: arg_ok_def example_func_def coerce_def example_env_def)
  have h2: "ProcessExecFuncArgs example_env example_func [(''x'', ''1'')] \<lparr>kwargs = [], args = []\<rparr>
        (new_visitor empty_ir []) =
       Inr (\<lparr>kwargs = [(''x'', ExprObject 0)], args = []\<rparr>,
            \<lparr>ir_graph = \<lparr>nodes = [(0, IntIR 1)], next_id = Suc 0\<rparr>,
             var_tables = [\<lparr>bindings = [], parent = None\<rparr>], module_handler = []\<rparr>)"
    by (simp add: example_func_def example_env_def ParseStringAsType_def graph_create_def
        CreateNode_def new_visitor_def empty_ir_def)
  from ProcessExecFuncArgs_coerces [of example_env example_func "[(''x'', ''not-a-number'')]"
      "new_visitor empty_ir []"] h1
  have c1: "\<exists>m. ProcessExecFuncArgs example_env example_func [(''x'', ''not-a-number'')]
             \<lparr>kwargs = [], args = []\<rparr> (new_visitor empty_ir []) = Inl (AstError m)"
    by blast
  from ProcessExecFuncArgs_coerces [of example_env example_func "[(''x'', ''1'')]"
      "new_visitor empty_ir []"] h2
  have c2: "list_all2 (passed example_env example_func
          \<lparr>ir_graph = \<lparr>nodes = [(0, IntIR 1)], next_id = Suc 0\<rparr>,
           var_tables = [\<lparr>bindings = [], parent = None\<rparr>], module_handler = []\<rparr>)
        [(''x'', ''1'')] [(''x'', ExprObject 0)]"
    by fastforce
  show ?thesis using h1 h2 c1 c2 by blast
qed

subsection \<open>Functions to execute: the descriptors\<close>

lemma ProcessExecFuncs_append:
  "ProcessExecFuncs E S (pre @ post) vt s =
     (case ProcessExecFuncs E S pre vt s of Inl e \<Rightarrow> Inl e | Inr s1 \<Rightarrow> ProcessExecFuncs E S post vt s1)"
proof (induction pre arbitrary: s)
  case Nil
  show ?case by simp
next
  case (Cons func pre)
  show ?case
    by (simp add: Cons.IH Let_def split: sum.splits option.splits qlobject.splits prod.splits)
qed

text \<open>
  C9. A descriptor whose \<open>func_name\<close> or whose \<open>output_table_prefix\<close> is empty makes
  \<^verbatim>\<open>ProcessExecFuncs\<close> return an error as soon as the descriptors before it are
  done, whatever the variable table holds and whatever a call would give: nothing is
  looked up or called for it.
\<close>

theorem ProcessExecFuncs_requires_names:
  assumes "func_name func = [] \<or> output_table_prefix func = []"
  shows "ProcessExecFuncs E S (pre @ func # rest) vt s =
           (case ProcessExecFuncs E S pre vt s of
              Inl e \<Rightarrow> Inl e
            | Inr s1 \<Rightarrow>
                Inl (AstError (if func_name func = []
                   then ''Must specify func_name for each FuncToExecute.''
                   else ''Output_table_prefix must be specified for function '' @ func_name func @ ''.'')))"
  using assms by (auto simp add: ProcessExecFuncs_append split: sum.splits)

theorem ProcessExecFuncs_requires_names_witness:
  "(func_name \<lparr>func_name = ''f'', output_table_prefix = [], arg_values = []\<rparr> = []
      \<or> output_table_prefix \<lparr>func_name = ''f'', output_table_prefix = [], arg_values = []\<rparr> = [])
   \<and> ProcessExecFuncs example_env (ProcessFuncBody example_env 0)
        [\<lparr>func_name = ''f'', output_table_prefix = [], arg_values = []\<rparr>] 0 (new_visitor empty_ir []) =
       Inl (AstError ''Output_table_prefix must be specified for function f.'')"
proof -
  have h: "func_name \<lparr>func_name = ''f'', output_table_prefix = [], arg_values = []\<rparr> = []
      \<or> output_table_prefix \<lparr>func_name = ''f'', output_table_prefix = [], arg_values = []\<rparr> = []"
    by simp
  show ?thesis
    using ProcessExecFuncs_requires_names [OF h, of example_env "ProcessFuncBody example_env 0"
        "[]" "[]" 0 "new_visitor empty_ir []"]
    by simp
qed

subsection \<open>Functions to execute: the sinks\<close>

lemma add_nodes_Nil: "add_nodes [] s = s"
  by (simp add: add_nodes_def)

lemma add_nodes_Cons:
  "add_nodes (x # ns) s = add_nodes ns (add_nodes [x] s)"
  by (simp add: add_nodes_def)

lemma graph_create_add_nodes:
  "graph_create n s = (next_id (ir_graph s), add_nodes [(next_id (ir_graph s), n)] s)"
  by (simp add: graph_create_def CreateNode_def add_nodes_def)

lemma is_dataframe_cases: "is_dataframe obj \<Longrightarrow> \<exists>p. obj = Dataframe p"
  by (cases obj) (simp_all add: is_dataframe_def)

lemma ProcessExecFuncs_returns_dataframes:
  "list_all is_dataframe objs \<Longrightarrow> b = next_id (ir_graph s) \<Longrightarrow>
   ProcessExecFuncs_returns fname prefix i objs s = Inr (add_nodes (sink_nodes prefix b i objs) s)"
proof (induction objs arbitrary: i s b)
  case Nil
  then show ?case by (simp add: add_nodes_Nil)
next
  case (Cons obj objs)
  from Cons.prems obtain p where p: "obj = Dataframe p"
    by (auto dest: is_dataframe_cases)
  from Cons.prems have rest: "list_all is_dataframe objs" by simp
  have nb: "Suc b = next_id (ir_graph (add_nodes [(b, MemorySinkIR p (sink_name prefix i) [])] s))"
    using Cons.prems(2) by (simp add: add_nodes_def)
  show ?case
    using Cons.IH [OF rest nb, of "Suc i"] Cons.prems(2)
    by (simp add: p graph_create_add_nodes sink_name_def add_nodes_Cons [of _ "sink_nodes _ _ _ _"])
qed

lemma ProcessExecFuncs_returns_other:
  "\<not> list_all is_dataframe objs \<Longrightarrow> \<exists>m. ProcessExecFuncs_returns fname prefix i objs s = Inl (AstError m)"
proof (induction objs arbitrary: i s)
  case Nil
  then show ?case by simp
next
  case (Cons obj objs)
  show ?case
  proof (cases obj)
    case (Dataframe p)
    have "is_dataframe obj" by (simp add: Dataframe is_dataframe_def)
    with Cons.prems have "\<not> list_all is_dataframe objs" by simp
    from Cons.IH [OF this] show ?thesis by (simp add: Dataframe Let_def split: prod.splits)
  qed simp_all
qed

text \<open>
  C2. Take a descriptor with a name and a prefix, whose name the variable table binds to
  a function, whose arguments are processed, and whose call returns \<open>ret\<close> in state
  \<open>s2\<close>. If \<open>ret\<close> is a Dataframe, the graph gets exactly one node more, a MemorySink
  named by the prefix over the operator of the Dataframe, and the run goes on with the
  other descriptors. If \<open>ret\<close> is a collection of Dataframes, the graph gets one
  MemorySink for each element, in order, the one at index \<open>i\<close> named \<open>prefix[i]\<close>. If
  \<open>ret\<close> is neither, or is a collection with an element that is no Dataframe, the
  result is an error.
\<close>

theorem ProcessExecFuncs_sinks:
  assumes "func_name func \<noteq> []" and "output_table_prefix func \<noteq> []"
    and "table_lookup s vt (func_name func) = Some f" and "type_of f = kFunction"
    and "ProcessExecFuncArgs E f (arg_values func) \<lparr>kwargs = [], args = []\<rparr> s = Inr (am, s1)"
    and "FuncObject_Call E S f am s1 = Inr (ret, s2)"
  shows "(\<forall>p. ret = Dataframe p \<longrightarrow>
            ProcessExecFuncs E S (func # rest) vt s =
              ProcessExecFuncs E S rest vt
                (add_nodes [(next_id (ir_graph s2), MemorySinkIR p (output_table_prefix func) [])] s2))
       \<and> (IsCollection ret \<and> list_all is_dataframe (items ret) \<longrightarrow>
            ProcessExecFuncs E S (func # rest) vt s =
              ProcessExecFuncs E S rest vt
                (add_nodes (sink_nodes (output_table_prefix func) (next_id (ir_graph s2)) 0 (items ret)) s2))
       \<and> (\<not> IsCollection ret \<and> \<not> is_dataframe ret \<longrightarrow>
            (\<exists>m. ProcessExecFuncs E S (func # rest) vt s = Inl (AstError m)))
       \<and> (IsCollection ret \<and> \<not> list_all is_dataframe (items ret) \<longrightarrow>
            (\<exists>m. ProcessExecFuncs E S (func # rest) vt s = Inl (AstError m)))"
proof (intro conjI allI impI)
  fix p assume "ret = Dataframe p"
  with assms show "ProcessExecFuncs E S (func # rest) vt s =
              ProcessExecFuncs E S rest vt
                (add_nodes [(next_id (ir_graph s2), MemorySinkIR p (output_table_prefix func) [])] s2)"
    by (simp add: graph_create_add_nodes)
next
  assume c: "IsCollection ret \<and> list_all is_dataframe (items ret)"
  then have "ProcessExecFuncs_returns (func_name func) (output_table_prefix func) 0 (items ret) s2 =
      Inr (add_nodes (sink_nodes (output_table_prefix func) (next_id (ir_graph s2)) 0 (items ret)) s2)"
    by (simp add: ProcessExecFuncs_returns_dataframes)
  with assms c show "ProcessExecFuncs E S (func # rest) vt s =
              ProcessExecFuncs E S rest vt
                (add_nodes (sink_nodes (output_table_prefix func) (next_id (ir_graph s2)) 0 (items ret)) s2)"
    by simp
next
  assume c: "\<not> IsCollection ret \<and> \<not> is_dataframe ret"
  with assms show "\<exists>m. ProcessExecFuncs E S (func # rest) vt s = Inl (AstError m)"
    by (cases ret) (simp_all add: is_dataframe_def)
next
  assume c: "IsCollection ret \<and> \<not> list_all is_dataframe (items ret)"
  then obtain m where "ProcessExecFuncs_returns (func_name func) (output_table_prefix func) 0 (items ret) s2 =
      Inl (AstError m)"
    using ProcessExecFuncs_returns_other by blast
  with assms c show "\<exists>m. ProcessExecFuncs E S (func # rest) vt s = Inl (AstError m)"
    by simp
qed

theorem ProcessExecFuncs_sinks_witness:
  "ProcessExecFuncs example_env (ProcessFuncBody example_env 0)
      [\<lparr>func_name = ''f'', output_table_prefix = ''out'', arg_values = []\<rparr>] 0 example_state =
     Inr (add_nodes [(Suc 0, MemorySinkIR (Some 0) ''out'' [])] example_state)
   \<and> ProcessExecFuncs example_env (ProcessFuncBody example_env 0)
      [\<lparr>func_name = ''g'', output_table_prefix = ''out'', arg_values = []\<rparr>] 0 example_state =
     Inr (add_nodes [(Suc 0, MemorySinkIR (Some 0) ''out[0]'' []),
                     (Suc (Suc 0), MemorySinkIR (Some 0) ''out[1]'' [])] example_state)"
proof -
  let ?S = "ProcessFuncBody example_env 0"
  let ?f = "\<lparr>func_name = ''f'', output_table_prefix = ''out'', arg_values = []\<rparr>"
  let ?g = "\<lparr>func_name = ''g'', output_table_prefix = ''out'', arg_values = []\<rparr>"
  let ?F = "FuncObject ''f'' [] [] (Native ''make_df'')"
  let ?G = "FuncObject ''g'' [] [] (Native ''make_dfs'')"
  have name_f: "func_name ?f \<noteq> []" and prefix_f: "output_table_prefix ?f \<noteq> []"
    and name_g: "func_name ?g \<noteq> []" and prefix_g: "output_table_prefix ?g \<noteq> []"
    by simp_all
  have look_f: "table_lookup example_state 0 (func_name ?f) = Some ?F"
    by (simp add: table_lookup_def example_state_def Lookup_root)
  have look_g: "table_lookup example_state 0 (func_name ?g) = Some ?G"
    by (simp add: table_lookup_def example_state_def Lookup_root)
  have type_f: "type_of ?F = kFunction" and type_g: "type_of ?G = kFunction"
    by simp_all
  have args_f: "ProcessExecFuncArgs example_env ?F (arg_values ?f) \<lparr>kwargs = [], args = []\<rparr> example_state =
      Inr (\<lparr>kwargs = [], args = []\<rparr>, example_state)"
    by simp
  have args_g: "ProcessExecFuncArgs example_env ?G (arg_values ?g) \<lparr>kwargs = [], args = []\<rparr> example_state =
      Inr (\<lparr>kwargs = [], args = []\<rparr>, example_state)"
    by simp
  have call_f: "FuncObject_Call example_env ?S ?F \<lparr>kwargs = [], args = []\<rparr> example_state =
      Inr (Dataframe (Some 0), example_state)"
    by (simp add: PrepareArgs_def example_env_def example_native_def)
  have call_g: "FuncObject_Call example_env ?S ?G \<lparr>kwargs = [], args = []\<rparr> example_state =
        Inr (ListObject [Dataframe (Some 0), Dataframe (Some 0)], example_state)"
    by (simp add: PrepareArgs_def example_env_def example_native_def)
  have n: "next_id (ir_graph example_state) = Suc 0"
    by (simp add: example_state_def)
  have names: "sink_name ''out'' 0 = ''out[0]''" "sink_name ''out'' (Suc 0) = ''out[1]''"
    by (simp_all add: sink_name_def string_of_nat.simps digit_char_def)
  have dfs: "list_all is_dataframe [Dataframe (Some 0), Dataframe (Some 0)]"
    by (simp add: is_dataframe_def)
  from ProcessExecFuncs_sinks [OF name_f prefix_f look_f type_f args_f call_f, of "[]"]
  have "ProcessExecFuncs example_env ?S [?f] 0 example_state =
     Inr (add_nodes [(Suc 0, MemorySinkIR (Some 0) ''out'' [])] example_state)"
    by (simp add: n)
  moreover
  from ProcessExecFuncs_sinks [OF name_g prefix_g look_g type_g args_g call_g, of "[]"] dfs
  have "ProcessExecFuncs example_env ?S [?g] 0 example_state =
     Inr (add_nodes [(Suc 0, MemorySinkIR (Some 0) ''out[0]'' []),
                     (Suc (Suc 0), MemorySinkIR (Some 0) ''out[1]'' [])] example_state)"
    by (simp add: n names)
  ultimately show ?thesis by simp
qed

subsection \<open>Assignment to an attribute\<close>

text \<open>
  C7. When the target of \<open>lvalue.name = rhs\<close> evaluates to an object that is no
  Dataframe and \<open>rhs\<close>, an expression of any form, evaluates to a value, the assignment
  is what \<^verbatim>\<open>AssignAttribute\<close> of the target gives for the name and that value.
\<close>

theorem ProcessAttributeAssignment_dispatch:
  assumes "Process E n v no_context vt s = Inr (target, s1)"
    and "type_of target \<noteq> kDataframe"
    and "Process E n rhs no_context vt s1 = Inr (val, s2)"
  shows "ProcessAttributeAssignment E (Process E n) v (Name a) rhs vt s = AssignAttribute E target a val s2
    \<and> ProcessAssignNode E (Process E n) [Attribute v (Name a)] rhs vt s = AssignAttribute E target a val s2"
  using assms
  by (cases target) (simp_all add: ProcessAttributeAssignment_def ProcessAssignNode_def GetAttributeStr_def)

theorem ProcessAttributeAssignment_dispatch_witness:
  "Process example_env (Suc 0) (Name ''px'') no_context 0 example_state = Inr (Module ''px'' [], example_state)
   \<and> type_of (Module ''px'' []) \<noteq> kDataframe
   \<and> Process example_env (Suc 0) (Str ''a'') no_context 0 example_state =
       Inr (ExprObject (Suc 0), add_nodes [(Suc 0, StringIR ''a'')] example_state)
   \<and> ProcessAssignNode example_env (Process example_env (Suc 0)) [Attribute (Name ''px'') (Name ''x'')]
        (Str ''a'') 0 example_state =
       Inr ((add_nodes [(Suc 0, StringIR ''a'')] example_state)
              \<lparr>module_handler := [(''px'', Module ''px'' [(''x'', ExprObject (Suc 0))])]\<rparr>)"
proof -
  have h1: "Process example_env (Suc 0) (Name ''px'') no_context 0 example_state =
      Inr (Module ''px'' [], example_state)"
    by (simp add: LookupVariable_def table_lookup_def example_state_def Lookup_root)
  have h2: "type_of (Module ''px'' []) \<noteq> kDataframe" by simp
  have h3: "Process example_env (Suc 0) (Str ''a'') no_context 0 example_state =
       Inr (ExprObject (Suc 0), add_nodes [(Suc 0, StringIR ''a'')] example_state)"
    by (simp add: ProcessStr_def graph_create_add_nodes) (simp add: example_state_def)
  have a: "AssignAttribute example_env (Module ''px'' []) ''x'' (ExprObject (Suc 0))
        (add_nodes [(Suc 0, StringIR ''a'')] example_state) =
       Inr ((add_nodes [(Suc 0, StringIR ''a'')] example_state)
              \<lparr>module_handler := [(''px'', Module ''px'' [(''x'', ExprObject (Suc 0))])]\<rparr>)"
    by (simp add: example_env_def add_nodes_def example_state_def)
  show ?thesis
    using h1 h2 h3 a ProcessAttributeAssignment_dispatch [OF h1 h2 h3, of "''x''"] by simp
qed

subsection \<open>The graph only grows\<close>

lemma ext_refl [simp]: "ext s s"
  by (simp add: ext_def graph_ext_def)

lemma ext_trans: "ext s s1 \<Longrightarrow> ext s1 s2 \<Longrightarrow> ext s s2"
proof -
  assume a: "ext s s1" and b: "ext s1 s2"
  have n: "next_id (ir_graph s) \<le> next_id (ir_graph s1)" "next_id (ir_graph s1) \<le> next_id (ir_graph s2)"
    using a b by (simp_all add: ext_def graph_ext_def)
  have "x \<in> ids (ir_graph s) \<union> {next_id (ir_graph s) ..< next_id (ir_graph s2)}"
    if x: "x \<in> ids (ir_graph s2)" for x
  proof -
    from x b have "x \<in> ids (ir_graph s1) \<or> (next_id (ir_graph s1) \<le> x \<and> x < next_id (ir_graph s2))"
      by (auto simp add: ext_def graph_ext_def)
    moreover have "x \<in> ids (ir_graph s) \<or> (next_id (ir_graph s) \<le> x \<and> x < next_id (ir_graph s1))"
      if "x \<in> ids (ir_graph s1)"
      using that a by (auto simp add: ext_def graph_ext_def)
    ultimately show ?thesis using n by auto
  qed
  then have "ids (ir_graph s2) \<subseteq> ids (ir_graph s) \<union> {next_id (ir_graph s) ..< next_id (ir_graph s2)}"
    by blast
  then show ?thesis using n by (simp add: ext_def graph_ext_def)
qed

lemma ext_tables [simp]: "ext s (s1\<lparr>var_tables := ts\<rparr>) = ext s s1"
  "ext (s\<lparr>var_tables := ts\<rparr>) s1 = ext s s1"
  "ext s (s1\<lparr>module_handler := h\<rparr>) = ext s s1"
  "ext (s\<lparr>module_handler := h\<rparr>) s1 = ext s s1"
  by (simp_all add: ext_def)

lemma ext_table_add [simp]: "ext s (table_add vt x obj s1) = ext s s1"
  "ext (table_add vt x obj s) s1 = ext s s1"
  by (simp_all add: table_add_def)

lemma ext_create: "graph_create n s = (i, s1) \<Longrightarrow> ext s s1"
  by (auto simp add: graph_create_def CreateNode_def ext_def graph_ext_def ids_def)

lemma ext_delete: "graph_delete i s = Inr s1 \<Longrightarrow> ext s s1"
  by (auto simp add: graph_delete_def DeleteNode_def ext_def graph_ext_def ids_def split: if_splits sum.splits)

lemma process_okD: "process_ok P \<Longrightarrow> P e ctx vt s = Inr (r, s') \<Longrightarrow> ext s s'"
  by (auto simp add: process_ok_def)

lemma suite_okD: "suite_ok S \<Longrightarrow> S b f vt s = Inr (r, s') \<Longrightarrow> ext s s'"
  by (auto simp add: suite_ok_def)

lemma LookupVariable_ext: "LookupVariable x vt s = Inr (r, s') \<Longrightarrow> ext s s'"
  by (auto simp add: LookupVariable_def split: option.splits)

lemma ProcessStr_ext: "ProcessStr v s = Inr (r, s') \<Longrightarrow> ext s s'"
  by (auto simp add: ProcessStr_def split: prod.splits dest: ext_create)

lemma ProcessNumber_ext: "ProcessNumber n s = Inr (r, s') \<Longrightarrow> ext s s'"
  by (cases n) (auto split: prod.splits dest: ext_create)

lemma create_func_ext: "create_func f xs s = Inr (r, s') \<Longrightarrow> ext s s'"
  by (auto simp add: create_func_def split: prod.splits dest: ext_create)

lemma ProcessCollectionChildren_ext:
  "process_ok P \<Longrightarrow> ProcessCollectionChildren P es ctx vt s = Inr (r, s') \<Longrightarrow> ext s s'"
proof (induction es arbitrary: s r)
  case Nil
  then show ?case by simp
next
  case (Cons e es)
  from Cons.prems(2) obtain a s1 b where
    "P e ctx vt s = Inr (a, s1)" "ProcessCollectionChildren P es ctx vt s1 = Inr (b, s')"
    by (auto split: sum.splits)
  then show ?case
    using Cons.IH [OF Cons.prems(1)] process_okD [OF Cons.prems(1)] ext_trans by blast
qed

lemma ProcessDataBinOp_ext:
  assumes ok: "process_ok P" and run: "ProcessDataBinOp E P op_str l r ctx vt s = Inr (x, s')"
  shows "ext s s'"
  using run unfolding ProcessDataBinOp_def
  by (auto split: sum.splits dest!: process_okD [OF ok] create_func_ext) (blast intro: ext_trans)


lemma well_behaved_native: "well_behaved E \<Longrightarrow> native_call E f parsed s = Inr (r, s') \<Longrightarrow> ext s s'"
  by (auto simp add: well_behaved_def)

lemma well_behaved_GetAttribute: "well_behaved E \<Longrightarrow> GetAttribute E obj a s = Inr (r, s') \<Longrightarrow> ext s s'"
  by (auto simp add: well_behaved_def)

lemma well_behaved_AssignAttribute: "well_behaved E \<Longrightarrow> AssignAttribute E obj a v s = Inr s' \<Longrightarrow> ext s s'"
  by (auto simp add: well_behaved_def)

lemma ProcessList_ext:
  "process_ok P \<Longrightarrow> ProcessList P es ctx vt s = Inr (r, s') \<Longrightarrow> ext s s'"
  by (auto simp add: ProcessList_def split: sum.splits dest: ProcessCollectionChildren_ext)

lemma ProcessTuple_ext:
  "process_ok P \<Longrightarrow> ProcessTuple P es ctx vt s = Inr (r, s') \<Longrightarrow> ext s s'"
  by (auto simp add: ProcessTuple_def split: sum.splits dest: ProcessCollectionChildren_ext)

lemma ProcessDataBoolOp_ext:
  assumes ok: "process_ok P" and run: "ProcessDataBoolOp E P op_str vs ctx vt s = Inr (x, s')"
  shows "ext s s'"
  using run unfolding ProcessDataBoolOp_def
  by (auto split: sum.splits if_splits dest!: process_okD [OF ok] create_func_ext) (blast intro: ext_trans)

lemma ProcessComparators_ext:
  "process_ok P \<Longrightarrow> ProcessComparators P es ctx vt s = Inr (r, s') \<Longrightarrow> ext s s'"
proof (induction es arbitrary: s r)
  case Nil
  then show ?case by simp
next
  case (Cons e es)
  from Cons.prems(2) obtain a s1 b where
    "P e ctx vt s = Inr (a, s1)" "ProcessComparators P es ctx vt s1 = Inr (b, s')"
    by (auto split: sum.splits)
  then show ?case
    using Cons.IH [OF Cons.prems(1)] process_okD [OF Cons.prems(1)] ext_trans by blast
qed

lemma ProcessDataCompare_ext:
  assumes ok: "process_ok P" and run: "ProcessDataCompare E P l ops cs ctx vt s = Inr (x, s')"
  shows "ext s s'"
  using run unfolding ProcessDataCompare_def
  by (auto split: sum.splits if_splits list.splits
      dest!: process_okD [OF ok] create_func_ext ProcessComparators_ext [OF ok])
     (blast intro: ext_trans)+

lemma ProcessDataUnaryOp_ext:
  assumes ok: "process_ok P" and run: "ProcessDataUnaryOp E P op_str v ctx vt s = Inr (x, s')"
  shows "ext s s'"
  using run unfolding ProcessDataUnaryOp_def
  by (auto split: sum.splits if_splits dest!: process_okD [OF ok] create_func_ext)
     (blast intro: ext_trans)+

lemma ProcessAttribute_ext:
  assumes ok: "process_ok P" and wb: "well_behaved E"
    and run: "ProcessAttribute E P v a ctx vt s = Inr (x, s')"
  shows "ext s s'"
  using run unfolding ProcessAttribute_def
  by (auto split: sum.splits dest!: process_okD [OF ok] well_behaved_GetAttribute [OF wb])
     (blast intro: ext_trans)+

lemma FuncDefHandler_args_ext:
  "FuncDefHandler_args E names annots parsed fv s = Inr s' \<Longrightarrow> ext s s'"
proof (induction names arbitrary: s)
  case Nil
  then show ?case by simp
next
  case (Cons a names)
  from Cons.prems obtain obj where
    "FuncDefHandler_args E names annots parsed fv (table_add fv a obj s) = Inr s'"
    by (auto split: option.splits sum.splits)
  from Cons.IH [OF this] show ?case by simp
qed

lemma FuncDefHandler_ext:
  assumes ok: "suite_ok S" and run: "FuncDefHandler E S vt names annots body parsed s = Inr (x, s')"
  shows "ext s s'"
  using run unfolding FuncDefHandler_def
  by (auto simp add: CreateChildTable_def split: sum.splits
      dest!: suite_okD [OF ok] FuncDefHandler_args_ext)
     (blast intro: ext_trans)+

lemma FuncObject_Call_ext:
  assumes ok: "suite_ok S" and wb: "well_behaved E"
    and run: "FuncObject_Call E S f am s = Inr (x, s')"
  shows "ext s s'"
  using run
  by (cases f)
     (auto split: sum.splits func_impl.splits
      dest: FuncDefHandler_ext [OF ok] well_behaved_native [OF wb])

lemma ProcessSubscriptCall_ext:
  assumes ok: "process_ok P" and sok: "suite_ok S" and wb: "well_behaved E"
    and run: "ProcessSubscriptCall E P S v sl ctx vt s = Inr (x, s')"
  shows "ext s s'"
  using run unfolding ProcessSubscriptCall_def
  by (auto simp add: Let_def split: sum.splits option.splits slice.splits
      dest!: process_okD [OF ok] FuncObject_Call_ext [OF sok wb])
     (blast intro: ext_trans)+

lemma ProcessKeywords_ext:
  "process_ok P \<Longrightarrow> ProcessKeywords P ks ctx vt s = Inr (r, s') \<Longrightarrow> ext s s'"
proof (induction ks arbitrary: s r)
  case Nil
  then show ?case by simp
next
  case (Cons kw ks)
  obtain k e where kw: "kw = (k, e)" by (cases kw)
  from Cons.prems(2) obtain a s1 b where
    "P e ctx vt s = Inr (a, s1)" "ProcessKeywords P ks ctx vt s1 = Inr (b, s')"
    by (auto simp add: kw split: sum.splits)
  then show ?case
    using Cons.IH [OF Cons.prems(1)] process_okD [OF Cons.prems(1)] ext_trans by blast
qed

lemma ProcessArgs_ext:
  assumes ok: "process_ok P" and run: "ProcessArgs P as ks ctx vt s = Inr (x, s')"
  shows "ext s s'"
  using run unfolding ProcessArgs_def
  by (auto split: sum.splits dest!: ProcessCollectionChildren_ext [OF ok] ProcessKeywords_ext [OF ok])
     (blast intro: ext_trans)+

lemma ProcessCallNode_ext:
  assumes ok: "process_ok P" and sok: "suite_ok S" and wb: "well_behaved E"
    and run: "ProcessCallNode E P S fn as ks ctx vt s = Inr (x, s')"
  shows "ext s s'"
  using run unfolding ProcessCallNode_def
  by (auto split: sum.splits qlobject.splits if_splits
      dest!: process_okD [OF ok] FuncObject_Call_ext [OF sok wb] ProcessArgs_ext [OF ok])
     (blast intro: ext_trans)+

lemma Process_node_ok:
  assumes ok: "process_ok P" and sok: "suite_ok S" and wb: "well_behaved E"
  shows "process_ok (Process_node E P S)"
  unfolding process_ok_def
proof (intro allI impI)
  fix e ctx vt s r s'
  assume run: "Process_node E P S e ctx vt s = Inr (r, s')"
  then show "ext s s'"
    by (cases e)
       (auto dest: ProcessCallNode_ext [OF ok sok wb] ProcessSubscriptCall_ext [OF ok sok wb]
          LookupVariable_ext ProcessAttribute_ext [OF ok wb] ProcessStr_ext ProcessNumber_ext
          ProcessList_ext [OF ok] ProcessTuple_ext [OF ok] ProcessDataBinOp_ext [OF ok]
          ProcessDataBoolOp_ext [OF ok] ProcessDataCompare_ext [OF ok] ProcessDataUnaryOp_ext [OF ok])
qed


lemma ProcessImport_ext: "ProcessImport x a vt s = Inr s' \<Longrightarrow> ext s s'"
  by (auto simp add: ProcessImport_def split: option.splits)

lemma ProcessImportFrom_aliases_ext:
  "well_behaved E \<Longrightarrow> ProcessImportFrom_aliases E m obj als vt s = Inr s' \<Longrightarrow> ext s s'"
proof (induction als arbitrary: s)
  case Nil
  then show ?case by simp
next
  case (Cons al als)
  obtain x a where al: "al = (x, a)" by (cases al)
  from Cons.prems(2) obtain attr s1 where
    g: "GetAttribute E obj x s = Inr (attr, s1)" and
    r: "ProcessImportFrom_aliases E m obj als vt (table_add vt (AsNameFromAlias x a) attr s1) = Inr s'"
    by (auto simp add: al split: if_splits sum.splits)
  from Cons.IH [OF Cons.prems(1) r] well_behaved_GetAttribute [OF Cons.prems(1) g]
  show ?case by (auto intro: ext_trans)
qed

lemma ProcessImportFrom_ext:
  "well_behaved E \<Longrightarrow> ProcessImportFrom E level m names vt s = Inr s' \<Longrightarrow> ext s s'"
  by (auto simp add: ProcessImportFrom_def simp del: ProcessImportFrom_aliases.simps
      split: if_splits option.splits import_names.splits
      dest: ProcessImportFrom_aliases_ext)

lemma FromColumnAssignment_ext: "FromColumnAssignment p c e s = Inr (df, s') \<Longrightarrow> ext s s'"
  by (auto simp add: FromColumnAssignment_def split: prod.splits dest: ext_create)

lemma ProcessMapAssignment_ext:
  assumes ok: "process_ok P" and run: "ProcessMapAssignment P target p node rhs vt s = Inr s'"
  shows "ext s s'"
  using run unfolding ProcessMapAssignment_def
  by (auto split: sum.splits option.splits expr.splits
      dest!: process_okD [OF ok] FromColumnAssignment_ext ext_delete)
     (blast intro: ext_trans)+

lemma ProcessSubscriptAssignment_ext:
  assumes ok: "process_ok P" and run: "ProcessSubscriptAssignment P v sl rhs vt s = Inr s'"
  shows "ext s s'"
  using run unfolding ProcessSubscriptAssignment_def
  by (auto split: sum.splits qlobject.splits
      dest!: process_okD [OF ok] ProcessMapAssignment_ext [OF ok])
     (blast intro: ext_trans)+

lemma ProcessAttributeAssignment_ext:
  assumes ok: "process_ok P" and wb: "well_behaved E"
    and run: "ProcessAttributeAssignment E P v a rhs vt s = Inr s'"
  shows "ext s s'"
  using run unfolding ProcessAttributeAssignment_def
  by (auto split: sum.splits qlobject.splits
      dest!: process_okD [OF ok] ProcessMapAssignment_ext [OF ok] well_behaved_AssignAttribute [OF wb])
     (blast intro: ext_trans)+

lemma ProcessAssignNode_ext:
  assumes ok: "process_ok P" and wb: "well_behaved E"
    and run: "ProcessAssignNode E P targets rhs vt s = Inr s'"
  shows "ext s s'"
  using run unfolding ProcessAssignNode_def
  by (auto split: sum.splits if_splits expr.splits
      dest: process_okD [OF ok] ProcessSubscriptAssignment_ext [OF ok]
        ProcessAttributeAssignment_ext [OF ok wb])

lemma ProcessFunctionDef_arguments_ext:
  "process_ok P \<Longrightarrow> ProcessFunctionDef_arguments P ps names annots vt s = Inr (r, s') \<Longrightarrow> ext s s'"
proof (induction P ps names annots vt s rule: ProcessFunctionDef_arguments.induct)
  case (4 P a annotation rest parsed_arg_names arg_annotations_objs vt s)
  from "4.prems"(2) obtain obj s1 where
    p: "P annotation no_context vt s = Inr (obj, s1)" and
    r: "ProcessFunctionDef_arguments P rest (parsed_arg_names @ [a]) ((a, obj) # arg_annotations_objs) vt s1
          = Inr (r, s')"
    by (auto split: sum.splits)
  from "4.IH" [OF _ _ "4.prems"(1) r] p process_okD [OF "4.prems"(1) p]
  show ?case by (auto intro: ext_trans)
qed auto

lemma ProcessFunctionDef_decorators_ext:
  assumes ok: "process_ok P" and sok: "suite_ok S" and wb: "well_behaved E"
  shows "ProcessFunctionDef_decorators E P S ds f vt s = Inr (r, s') \<Longrightarrow> ext s s'"
proof (induction ds arbitrary: f s)
  case Nil
  then show ?case by simp
next
  case (Cons d ds)
  from Cons.prems obtain dec_fn s1 fn_object object_fn s2 f' where
    p: "P d no_context vt s = Inr (dec_fn, s1)" and
    c: "FuncObject_Call E S fn_object \<lparr>kwargs = [], args = [f]\<rparr> s1 = Inr (object_fn, s2)" and
    r: "ProcessFunctionDef_decorators E P S ds f' vt s2 = Inr (r, s')"
    by (auto split: sum.splits)
  from process_okD [OF ok p] FuncObject_Call_ext [OF sok wb c] Cons.IH [OF r]
  show ?case by (blast intro: ext_trans)
qed

lemma ProcessDocString_ext: "ProcessDocString d s = Inr (r, s') \<Longrightarrow> ext s s'"
  by (auto simp add: ProcessDocString_def split: prod.splits dest: ext_create)

lemma ProcessFuncDefDocString_ext: "ProcessFuncDefDocString b s = Inr (r, s') \<Longrightarrow> ext s s'"
  by (auto simp add: ProcessFuncDefDocString_def split: prod.splits list.splits stmt.splits
      dest: ext_create ProcessDocString_ext)

lemma ProcessFunctionDefNode_ext:
  assumes ok: "process_ok P" and sok: "suite_ok S" and wb: "well_behaved E"
    and run: "ProcessFunctionDefNode E P S fname ps nk dfl va kw fbody decs vt s = Inr s'"
  shows "ext s s'"
  using run unfolding ProcessFunctionDefNode_def
  by (auto split: sum.splits if_splits expr.splits body.splits
      dest!: ProcessFunctionDef_arguments_ext [OF ok] ProcessFunctionDef_decorators_ext [OF ok sok wb]
        ProcessFuncDefDocString_ext)
     (blast intro: ext_trans)+

lemma ProcessExprStmtNode_ext:
  "process_ok P \<Longrightarrow> ProcessExprStmtNode P e vt s = Inr s' \<Longrightarrow> ext s s'"
  by (auto simp add: ProcessExprStmtNode_def split: sum.splits dest: process_okD)

lemma ProcessFuncDefReturn_ext:
  "process_ok P \<Longrightarrow> ProcessFuncDefReturn P ret vt s = Inr (r, s') \<Longrightarrow> ext s s'"
  by (auto simp add: ProcessFuncDefReturn_def split: option.splits dest: process_okD)

lemma ProcessASTSuite_items_ext:
  assumes ok: "process_ok P" and sok: "suite_ok S" and wb: "well_behaved E"
  shows "ProcessASTSuite_items E P S stmts is_fn vt s = Inr (r, s') \<Longrightarrow> ext s s'"
proof (induction stmts arbitrary: s)
  case Nil
  then show ?case by simp
next
  case (Cons st stmts)
  show ?case
  proof (cases st)
    case (Import x a)
    with Cons.prems obtain s1 where "ProcessImport x a vt s = Inr s1"
      "ProcessASTSuite_items E P S stmts is_fn vt s1 = Inr (r, s')"
      by (auto split: sum.splits)
    then show ?thesis using Cons.IH ProcessImport_ext ext_trans by blast
  next
    case (ImportFrom level m names)
    with Cons.prems obtain s1 where "ProcessImportFrom E level m names vt s = Inr s1"
      "ProcessASTSuite_items E P S stmts is_fn vt s1 = Inr (r, s')"
      by (auto split: sum.splits)
    then show ?thesis using Cons.IH ProcessImportFrom_ext [OF wb] ext_trans by blast
  next
    case (ExpressionStatement e)
    with Cons.prems obtain s1 where "ProcessExprStmtNode P e vt s = Inr s1"
      "ProcessASTSuite_items E P S stmts is_fn vt s1 = Inr (r, s')"
      by (auto split: sum.splits)
    then show ?thesis using Cons.IH ProcessExprStmtNode_ext [OF ok] ext_trans by blast
  next
    case (Assign targets val)
    with Cons.prems obtain s1 where "ProcessAssignNode E P targets val vt s = Inr s1"
      "ProcessASTSuite_items E P S stmts is_fn vt s1 = Inr (r, s')"
      by (auto split: sum.splits)
    then show ?thesis using Cons.IH ProcessAssignNode_ext [OF ok wb] ext_trans by blast
  next
    case (FunctionDef fname ps nk dfl va kw fbody decs)
    with Cons.prems obtain s1 where
      "ProcessFunctionDefNode E P S fname ps nk dfl va kw fbody decs vt s = Inr s1"
      "ProcessASTSuite_items E P S stmts is_fn vt s1 = Inr (r, s')"
      by (auto split: sum.splits)
    then show ?thesis using Cons.IH ProcessFunctionDefNode_ext [OF ok sok wb] ext_trans by blast
  next
    case (DocString d)
    with Cons.prems show ?thesis by simp
  next
    case (Return ret)
    with Cons.prems show ?thesis
      by (auto split: if_splits dest: ProcessFuncDefReturn_ext [OF ok])
  next
    case (OtherStmt t)
    with Cons.prems show ?thesis by simp
  qed
qed

lemma ProcessASTSuite_body_ok:
  assumes ok: "process_ok P" and sok: "suite_ok S" and wb: "well_behaved E"
  shows "suite_ok (ProcessASTSuite_body E P S)"
  unfolding suite_ok_def
proof (intro allI impI)
  fix b f vt s r s'
  assume run: "ProcessASTSuite_body E P S b f vt s = Inr (r, s')"
  then show "ext s s'"
    unfolding ProcessASTSuite_body_def
    by (auto simp del: ProcessASTSuite_items.simps
        split: if_splits list.splits stmt.splits sum.splits prod.splits
        dest!: ProcessASTSuite_items_ext [OF ok sok wb] ProcessDocString_ext ext_create)
       (blast intro: ext_trans)+
qed

lemma Process_ok:
  assumes wb: "well_behaved E"
  shows "process_ok (Process E n) \<and> suite_ok (ProcessFuncBody E n)"
proof (induction n)
  case 0
  show ?case by (simp add: process_ok_def suite_ok_def)
next
  case (Suc n)
  then have ok: "process_ok (Process E n)" and sok: "suite_ok (ProcessFuncBody E n)"
    by simp_all
  have "process_ok (Process E (Suc n))"
    using Process_node_ok [OF ok sok wb] by (simp add: process_ok_def)
  moreover have "suite_ok (ProcessFuncBody E (Suc n))"
    using ProcessASTSuite_body_ok [OF ok sok wb] by (simp add: suite_ok_def)
  ultimately show ?case by blast
qed

lemma ProcessASTSuite_ext:
  "well_behaved E \<Longrightarrow> ProcessASTSuite E n b f vt s = Inr (r, s') \<Longrightarrow> ext s s'"
  using ProcessASTSuite_body_ok [of "Process E n" "ProcessFuncBody E n" E] Process_ok [of E n]
  by (auto simp add: ProcessASTSuite_def suite_ok_def)


lemma ext_absent:
  "ext s s' \<Longrightarrow> i < next_id (ir_graph s) \<Longrightarrow> i \<notin> ids (ir_graph s) \<Longrightarrow> i \<notin> ids (ir_graph s')"
  by (auto simp add: ext_def graph_ext_def)

lemma ext_wf: "wf_ir (ir_graph s) \<Longrightarrow> ext s s' \<Longrightarrow> wf_ir (ir_graph s')"
  by (fastforce simp add: ext_def graph_ext_def wf_ir_def)

lemma ext_next_id: "ext s s' \<Longrightarrow> next_id (ir_graph s) \<le> next_id (ir_graph s')"
  by (simp add: ext_def graph_ext_def)

lemma is_column_ids: "is_column g i \<Longrightarrow> i \<in> ids g"
  by (auto simp add: is_column_def ids_def split: option.splits dest: map_of_SomeD intro: rev_image_eqI)

lemma graph_delete_Inr:
  "graph_delete i s = Inr s' \<Longrightarrow>
   i \<in> ids (ir_graph s) \<and> i \<notin> ids (ir_graph s')
   \<and> nodes (ir_graph s') = filter (\<lambda>(j, n). j \<noteq> i) (nodes (ir_graph s))
   \<and> next_id (ir_graph s') = next_id (ir_graph s) \<and> var_tables s' = var_tables s"
  by (auto simp add: graph_delete_def DeleteNode_def ids_def split: if_splits sum.splits)

lemma Lookup_Add:
  "vt < length ts \<Longrightarrow> Lookup (Add vt x obj ts) vt x = Some obj"
  by (subst Lookup.simps) (simp add: Add_def)

lemma ProcessSubscriptAssignment_Inr:
  assumes "ProcessSubscriptAssignment P v sl rhs vt s = Inr s1"
  shows "\<exists>x col sa p sb e sc.
      v = Name x
    \<and> P (Subscript v sl) no_context vt s = Inr (ExprObject col, sa)
    \<and> P v no_context vt sa = Inr (Dataframe (Some p), sb)
    \<and> is_column (ir_graph sb) col
    \<and> P rhs \<lparr>parent_ops = [p], operator_name = kMapOpId, referenceable_dataframes = [x]\<rparr> vt sb
        = Inr (ExprObject e, sc)
    \<and> graph_delete col
         (table_add vt x (Dataframe (Some (next_id (ir_graph sc))))
            (add_nodes [(next_id (ir_graph sc),
                         MapIR (Some p) [(col_name (ir_graph sc) col, e)] True)] sc)) = Inr s1"
  using assms
  unfolding ProcessSubscriptAssignment_def ProcessMapAssignment_def
  by (auto simp add: GetArgAs_ColumnIR_def GetArgAs_ExpressionIR_def FromColumnAssignment_def
      graph_create_add_nodes
      split: sum.splits qlobject.splits expr.splits option.splits if_splits)


text \<open>
  C1. Take a suite that starts with the assignment \<open>v[key] = rhs\<close> and runs to its
  end, in a well-behaved environment, from a state whose graph has its ids below its
  next id. Then \<open>v\<close> is a bare name \<open>x\<close>; evaluating the subscript gave an Expr over a
  node \<open>col\<close>; \<open>x\<close> evaluated to a Dataframe over an operator \<open>p\<close>; and the assignment
  binds \<open>x\<close>, in the variable table of the visitor, to the Dataframe over a new map on
  \<open>p\<close> that assigns the value of \<open>rhs\<close> to the column, and deletes \<open>col\<close>: \<open>col\<close> is
  no node of the graph after the assignment, nor at the end of the suite, nor in any
  state that extends the end, as every state that the evaluator reaches does.
\<close>

theorem map_assignment_deletes_column:
  assumes wb: "well_behaved E" and wf: "wf_ir (ir_graph s)"
    and run: "ProcessASTSuite_items E (Process E n) (ProcessFuncBody E n)
                (Assign [Subscript v sl] rhs # rest) is_fn vt s = Inr (r, s_end)"
  shows "\<exists>x col sa p sb e sc s1.
      v = Name x
    \<and> Process E n (Subscript v sl) no_context vt s = Inr (ExprObject col, sa)
    \<and> Process E n v no_context vt sa = Inr (Dataframe (Some p), sb)
    \<and> Process E n rhs \<lparr>parent_ops = [p], operator_name = kMapOpId, referenceable_dataframes = [x]\<rparr>
        vt sb = Inr (ExprObject e, sc)
    \<and> ProcessAssignNode E (Process E n) [Subscript v sl] rhs vt s = Inr s1
    \<and> var_tables s1 = Add vt x (Dataframe (Some (next_id (ir_graph sc)))) (var_tables sc)
    \<and> (vt < length (var_tables sc) \<longrightarrow>
         table_lookup s1 vt x = Some (Dataframe (Some (next_id (ir_graph sc)))))
    \<and> (next_id (ir_graph sc), MapIR (Some p) [(col_name (ir_graph sc) col, e)] True)
         \<in> set (nodes (ir_graph s1))
    \<and> col \<notin> ids (ir_graph s1)
    \<and> ProcessASTSuite_items E (Process E n) (ProcessFuncBody E n) rest is_fn vt s1 = Inr (r, s_end)
    \<and> col \<notin> ids (ir_graph s_end)
    \<and> (\<forall>s_later. ext s_end s_later \<longrightarrow> col \<notin> ids (ir_graph s_later))"
proof -
  have ok: "process_ok (Process E n)" and sok: "suite_ok (ProcessFuncBody E n)"
    using Process_ok [OF wb] by simp_all
  from run obtain s1 where
    assign: "ProcessAssignNode E (Process E n) [Subscript v sl] rhs vt s = Inr s1" and
    later: "ProcessASTSuite_items E (Process E n) (ProcessFuncBody E n) rest is_fn vt s1 = Inr (r, s_end)"
    by (auto split: sum.splits)
  from assign have sub: "ProcessSubscriptAssignment (Process E n) v sl rhs vt s = Inr s1"
    by (simp add: ProcessAssignNode_def)
  let ?m = "\<lambda>sc. next_id (ir_graph sc)"
  from ProcessSubscriptAssignment_Inr [OF sub] obtain x col sa p sb e sc where
    v: "v = Name x" and
    lhs: "Process E n (Subscript v sl) no_context vt s = Inr (ExprObject col, sa)" and
    tbl: "Process E n v no_context vt sa = Inr (Dataframe (Some p), sb)" and
    col: "is_column (ir_graph sb) col" and
    val: "Process E n rhs \<lparr>parent_ops = [p], operator_name = kMapOpId, referenceable_dataframes = [x]\<rparr>
            vt sb = Inr (ExprObject e, sc)" and
    del: "graph_delete col
            (table_add vt x (Dataframe (Some (?m sc)))
               (add_nodes [(?m sc, MapIR (Some p) [(col_name (ir_graph sc) col, e)] True)] sc)) = Inr s1"
    by blast
  let ?sd = "table_add vt x (Dataframe (Some (?m sc)))
               (add_nodes [(?m sc, MapIR (Some p) [(col_name (ir_graph sc) col, e)] True)] sc)"
  have e1: "ext s sa" and e2: "ext sa sb" and e3: "ext sb sc"
    using process_okD [OF ok lhs] process_okD [OF ok tbl] process_okD [OF ok val] by simp_all
  have wf_sb: "wf_ir (ir_graph sb)"
    using wf e1 e2 ext_wf by blast
  have col_lt: "col < ?m sb"
    using is_column_ids [OF col] wf_sb by (auto simp add: wf_ir_def)
  have col_m: "col < ?m sc"
    using col_lt ext_next_id [OF e3] by simp
  from graph_delete_Inr [OF del] have
    gone: "col \<notin> ids (ir_graph s1)" and
    ns: "nodes (ir_graph s1) = filter (\<lambda>(j, n). j \<noteq> col) (nodes (ir_graph ?sd))" and
    nx: "next_id (ir_graph s1) = next_id (ir_graph ?sd)" and
    ts: "var_tables s1 = var_tables ?sd"
    by simp_all
  have bind: "var_tables s1 = Add vt x (Dataframe (Some (?m sc))) (var_tables sc)"
    using ts by (simp add: table_add_def add_nodes_def)
  have look: "vt < length (var_tables sc) \<longrightarrow> table_lookup s1 vt x = Some (Dataframe (Some (?m sc)))"
    by (simp add: table_lookup_def bind Lookup_Add)
  have map_in: "(?m sc, MapIR (Some p) [(col_name (ir_graph sc) col, e)] True) \<in> set (nodes (ir_graph s1))"
    using col_m by (simp add: ns table_add_def add_nodes_def)
  have col_s1: "col < next_id (ir_graph s1)"
    using col_m by (simp add: nx table_add_def add_nodes_def)
  have e4: "ext s1 s_end"
    using ProcessASTSuite_items_ext [OF ok sok wb later] .
  have end_gone: "col \<notin> ids (ir_graph s_end)"
    using ext_absent [OF e4 col_s1 gone] .
  have stable: "\<forall>s_later. ext s_end s_later \<longrightarrow> col \<notin> ids (ir_graph s_later)"
    using ext_absent [OF ext_trans [OF e4] col_s1 gone] by blast
  from v lhs tbl val assign bind look map_in gone later end_gone stable
  show ?thesis by blast
qed

theorem map_assignment_deletes_column_witness:
  "well_behaved example_env \<and> wf_ir (ir_graph example_state)
   \<and> ProcessASTSuite_items example_env (Process example_env (Suc (Suc 0)))
       (ProcessFuncBody example_env (Suc (Suc 0)))
       [Assign [Subscript (Name ''df'') (Index (Str ''b''))] (Number (Integer 1))] False 0 example_state =
     Inr (NoneObject,
      \<lparr>ir_graph = \<lparr>nodes = [(0, OtherIR ''MemorySource'' []), (Suc 0, StringIR ''b''),
                              (3, IntIR 1), (4, MapIR (Some 0) [(''b'', 3)] True)],
                     next_id = 5\<rparr>,
       var_tables = [\<lparr>bindings = [(''df'', Dataframe (Some 4)),
                        (''f'', FuncObject ''f'' [] [] (Native ''make_df'')),
                        (''g'', FuncObject ''g'' [] [] (Native ''make_dfs'')),
                        (''df'', Dataframe (Some 0)), (''px'', Module ''px'' [])],
                      parent = None\<rparr>],
       module_handler = []\<rparr>)
   \<and> Process example_env (Suc (Suc 0)) (Subscript (Name ''df'') (Index (Str ''b''))) no_context 0
        example_state =
       Inr (ExprObject 2, add_nodes [(Suc 0, StringIR ''b''), (2, ColumnIR ''b'')] example_state)
   \<and> 2 \<notin> ids \<lparr>nodes = [(0, OtherIR ''MemorySource'' []), (Suc 0, StringIR ''b''),
                         (3, IntIR 1), (4, MapIR (Some 0) [(''b'', 3)] True)],
                next_id = 5\<rparr>"
proof -
  let ?end = "\<lparr>ir_graph = \<lparr>nodes = [(0, OtherIR ''MemorySource'' []), (Suc 0, StringIR ''b''),
                              (3, IntIR 1), (4, MapIR (Some 0) [(''b'', 3)] True)],
                     next_id = 5\<rparr>,
       var_tables = [\<lparr>bindings = [(''df'', Dataframe (Some 4)),
                        (''f'', FuncObject ''f'' [] [] (Native ''make_df'')),
                        (''g'', FuncObject ''g'' [] [] (Native ''make_dfs'')),
                        (''df'', Dataframe (Some 0)), (''px'', Module ''px'' [])],
                      parent = None\<rparr>],
       module_handler = []\<rparr>"
  have wb: "well_behaved example_env"
    unfolding well_behaved_def
    by (auto simp add: example_env_def example_native_def example_subscript_def
        split: if_splits option.splits qlobject.splits ir_node.splits prod.splits dest: ext_create)
  have wf: "wf_ir (ir_graph example_state)"
    by (simp add: wf_ir_def example_state_def ids_def)
  have lhs: "Process example_env (Suc (Suc 0)) (Subscript (Name ''df'') (Index (Str ''b''))) no_context 0
        example_state =
       Inr (ExprObject 2, add_nodes [(Suc 0, StringIR ''b''), (2, ColumnIR ''b'')] example_state)"
    by (simp add: ProcessSubscriptCall_def no_context_def kMapOpId_def LookupVariable_def
        table_lookup_def Lookup_root example_state_def example_env_def ProcessStr_def
        graph_create_def CreateNode_def PrepareArgs_def example_native_def example_subscript_def
        add_nodes_def numeral_2_eq_2)
  have run: "ProcessASTSuite_items example_env (Process example_env (Suc (Suc 0)))
       (ProcessFuncBody example_env (Suc (Suc 0)))
       [Assign [Subscript (Name ''df'') (Index (Str ''b''))] (Number (Integer 1))] False 0 example_state =
     Inr (NoneObject, ?end)"
    by (simp add: ProcessAssignNode_def ProcessSubscriptAssignment_def ProcessMapAssignment_def
        ProcessSubscriptCall_def no_context_def kMapOpId_def LookupVariable_def
        table_lookup_def Lookup_root example_state_def example_env_def ProcessStr_def
        graph_create_def CreateNode_def PrepareArgs_def example_native_def example_subscript_def
        GetArgAs_ColumnIR_def GetArgAs_ExpressionIR_def is_column_def col_name_def
        FromColumnAssignment_def table_add_def Add_def graph_delete_def DeleteNode_def
        eval_nat_numeral)
  from map_assignment_deletes_column [OF wb wf run] obtain col sa where
    "Process example_env (Suc (Suc 0)) (Subscript (Name ''df'') (Index (Str ''b''))) no_context 0
        example_state = Inr (ExprObject col, sa)"
    and gone: "col \<notin> ids (ir_graph ?end)"
    by blast
  with lhs have "col = 2" by simp
  with gone have "2 \<notin> ids (ir_graph ?end)" by simp
  then show ?thesis using wb wf run lhs by simp
qed

end
